theory Spec2Isabelle
  imports Complex_Main "HOL-Library.AList"
begin

section \<open>Python values, exceptions and containers\<close>

text \<open>
  The exporter is one Python module, \<^verbatim>\<open>airtouch-nr-metric-exporter.py\<close>. Exceptions
  are values of \<open>py_error\<close>; a computation that can raise returns a sum with the
  exception on the left. \<open>RuntimeError\<close> stands for any other subclass of
  \<^verbatim>\<open>Exception\<close> that a collaborator (pyairtouch, the OpenTelemetry SDK) may raise.
\<close>

datatype py_error =
    ValueError
  | IndexError
  | AttributeError
  | RuntimeError string
  | ExceptionGroup "py_error list"

text \<open>
  \<^verbatim>\<open>seq[i]\<close> on a Python sequence: positions \<open>0 .. n-1\<close>, the negative indices
  \<open>-n .. -1\<close> counting from the end, and \<^verbatim>\<open>IndexError\<close> everywhere else.
\<close>

definition getitem :: "'a list \<Rightarrow> int \<Rightarrow> py_error + 'a" where
  "getitem xs i =
     (if 0 \<le> i \<and> i < int (length xs) then Inr (xs ! nat i)
      else if i < 0 \<and> - int (length xs) \<le> i then Inr (xs ! nat (int (length xs) + i))
      else Inl IndexError)"

text \<open>\<^verbatim>\<open>str(i)\<close> of an integer, as the f-strings of the module format it.\<close>

definition digit_char :: "nat \<Rightarrow> char" where
  "digit_char d = ''0123456789'' ! d"

function str_nat :: "nat \<Rightarrow> string" where
  "str_nat n =
     (if n < 10 then [digit_char n] else str_nat (n div 10) @ [digit_char (n mod 10)])"
  by pat_completeness auto
termination
  by (relation "measure id") auto

declare str_nat.simps [simp del]

definition str_int :: "int \<Rightarrow> string" where
  "str_int i = (if i < 0 then CHR ''-'' # str_nat (nat (- i)) else str_nat (nat i))"

text \<open>
  A member of a Python \<^verbatim>\<open>Enum\<close> is identified by its name, which is all the
  module reads of it (\<^verbatim>\<open>.name\<close>, and \<^verbatim>\<open>== ZonePowerState.ON\<close>). A field whose
  \<^verbatim>\<open>.name\<close> the module reads is an \<open>enum_member option\<close>: \<open>None\<close> is Python's
  \<^verbatim>\<open>None\<close>, on which \<^verbatim>\<open>.name\<close> raises \<^verbatim>\<open>AttributeError\<close>.
\<close>

datatype enum_member = Member string

definition ZonePowerState_ON :: enum_member where
  "ZonePowerState_ON = Member ''ON''"

definition enum_name :: "enum_member option \<Rightarrow> py_error + string" where
  "enum_name v = (case v of None \<Rightarrow> Inl AttributeError | Some (Member n) \<Rightarrow> Inr n)"

section \<open>The state read from pyairtouch\<close>

text \<open>
  The fields the module reads of a zone, of an air conditioner and of an AirTouch
  controller. Fields of the same Python name in two classes carry the class as a prefix
  (\<open>zone_name\<close>, \<open>ac_name\<close>, \<open>airtouch_name\<close>). A name or \<^verbatim>\<open>low_battery\<close> that is
  \<open>None\<close> is an attribute the object does not have: the module reads both with
  \<^verbatim>\<open>getattr(obj, attr, default)\<close>. The other optional fields are \<^verbatim>\<open>None\<close> in Python
  when absent. Temperatures are Python floats, only stored and never computed with,
  and are modelled as reals.
\<close>

record zone =
  zone_id :: int
  zone_name :: "string option"
  zone_power_state :: enum_member
  control_method :: "enum_member option"
  spill_active :: bool
  low_battery :: "bool option"
  zone_target_temperature :: "real option"
  current_damper_percentage :: "int option"
  zone_current_temperature :: "real option"

record aircon =
  ac_id :: int
  ac_name :: "string option"
  ac_power_state :: "enum_member option"
  active_mode :: "enum_member option"
  active_fan_speed :: "enum_member option"
  ac_current_temperature :: "real option"
  ac_target_temperature :: "real option"
  zones :: "zone list"

record airtouch =
  airtouch_name :: string
  host :: string
  air_conditioners :: "aircon list"

section \<open>Attributes, the log and the calls to collaborators\<close>

datatype attr_value = AInt int | AFloat real | AStr string

text \<open>
  A Python \<^verbatim>\<open>dict\<close> keeps insertion order; \<^verbatim>\<open>d[k] = v\<close> replaces the value of a key
  in place and appends a new key, which is \<open>AList.update\<close>.
\<close>

type_synonym attributes = "(string \<times> attr_value) list"

text \<open>
  What the process writes: \<open>Stderr\<close> is \<^verbatim>\<open>msg\<close> (a print to the error stream),
  \<open>Info\<close> is \<^verbatim>\<open>logging.info\<close>, \<open>LogException\<close> is \<^verbatim>\<open>logging.exception\<close> with the
  exception being handled.
\<close>

datatype log_entry =
    Stderr string
  | Info string
  | LogException string py_error

text \<open>
  The calls the module makes to its collaborators, in the order it makes them.
  Controllers are numbered by their position in the list discovery returned, and so are
  their monitor tasks; \<open>CreateGauge i\<close> is the \<^verbatim>\<open>meter.create_gauge\<close> call of monitor
  \<open>i\<close>, and \<open>GaugeSet i v a\<close> is \<^verbatim>\<open>set(v, a)\<close> on the gauge that call returned.
  \<open>Subscribe i k\<close> is \<^verbatim>\<open>subscribe\<close> on the air conditioner in position \<open>k\<close> of
  controller \<open>i\<close>.
\<close>

datatype call =
    OTLPMetricExporter string string
  | PeriodicExportingMetricReader
  | MeterProvider
  | SetMeterProvider
  | GetMeter string
  | Discover "string option"
  | Init nat
  | CreateGauge nat string string
  | Subscribe nat nat
  | GaugeSet nat real attributes

record world =
  logged :: "log_entry list"
  calls :: "call list"

definition msg :: "string \<Rightarrow> world \<Rightarrow> world" where
  "msg log_msg w = w\<lparr>logged := logged w @ [Stderr log_msg]\<rparr>"

definition logging_info :: "string \<Rightarrow> world \<Rightarrow> world" where
  "logging_info m w = w\<lparr>logged := logged w @ [Info m]\<rparr>"

definition logging_exception :: "string \<Rightarrow> py_error \<Rightarrow> world \<Rightarrow> world" where
  "logging_exception m e w = w\<lparr>logged := logged w @ [LogException m e]\<rparr>"

definition do_call :: "call \<Rightarrow> world \<Rightarrow> world" where
  "do_call c w = w\<lparr>calls := calls w @ [c]\<rparr>"

text \<open>
  The \<^verbatim>\<open>set\<close> method of a gauge is a collaborator's: it takes the value and the
  attributes and may raise. \<open>gauge_set i\<close> is the gauge of monitor \<open>i\<close> that records
  the sample and returns.
\<close>

type_synonym gauge = "real \<Rightarrow> attributes \<Rightarrow> world \<Rightarrow> py_error option \<times> world"

definition gauge_set :: "nat \<Rightarrow> gauge" where
  "gauge_set i v a w = (None, do_call (GaugeSet i v a) w)"

section \<open>The zone update handler\<close>

text \<open>
  \<^verbatim>\<open>getattr(aircon, "name", f"AC-{aircon.ac_id}")\<close> and
  \<^verbatim>\<open>getattr(zone, "name", f"Zone-{zone.zone_id}")\<close>.
\<close>

definition aircon_attr_name :: "aircon \<Rightarrow> string" where
  "aircon_attr_name ac =
     (case ac_name ac of Some n \<Rightarrow> n | None \<Rightarrow> ''AC-'' @ str_int (ac_id ac))"

definition zone_attr_name :: "zone \<Rightarrow> string" where
  "zone_attr_name z =
     (case zone_name z of Some n \<Rightarrow> n | None \<Rightarrow> ''Zone-'' @ str_int (zone_id z))"

text \<open>
  Lines 120 to 145 of \<^verbatim>\<open>_on_ac_status_updated\<close>: the attributes of one zone, built in
  the order of the source. Reading \<^verbatim>\<open>.name\<close> of an enum field that is \<^verbatim>\<open>None\<close>
  raises and the dictionary built so far is dropped.
\<close>

definition build_attributes :: "airtouch \<Rightarrow> aircon \<Rightarrow> zone \<Rightarrow> py_error + attributes" where
  "build_attributes airtouch ac z =
     (let attributes =
            [(''airtouch.ac.id'', AInt (ac_id ac)),
             (''airtouch.ac.name'', AStr (aircon_attr_name ac)),
             (''airtouch.zone.id'', AInt (zone_id z)),
             (''airtouch.zone.name'', AStr (zone_attr_name z)),
             (''airtouch.host'', AStr (host airtouch))];
          attributes = AList.update ''airtouch.zone.powerState''
            (AInt (if zone_power_state z = ZonePowerState_ON then 1 else 0)) attributes
      in (case enum_name (control_method z) of
            Inl e \<Rightarrow> Inl e
          | Inr cm \<Rightarrow>
      (let attributes = AList.update ''airtouch.zone.controlMethod'' (AStr cm) attributes;
           attributes = AList.update ''airtouch.zone.spill''
             (AInt (if spill_active z then 1 else 0)) attributes;
           attributes = AList.update ''airtouch.zone.lowBattery''
             (AInt (if (case low_battery z of Some b \<Rightarrow> b | None \<Rightarrow> False) then 1 else 0))
             attributes;
           attributes = (case zone_target_temperature z of
               Some t \<Rightarrow> AList.update ''airtouch.zone.setPoint'' (AFloat t) attributes
             | None \<Rightarrow> attributes);
           attributes = (case current_damper_percentage z of
               Some p \<Rightarrow> AList.update ''airtouch.zone.openPercentage'' (AInt p) attributes
             | None \<Rightarrow> attributes)
       in (case enum_name (ac_power_state ac) of
             Inl e \<Rightarrow> Inl e
           | Inr ps \<Rightarrow>
      (let attributes = AList.update ''airtouch.aircon.powerState'' (AStr ps) attributes
       in (case enum_name (active_mode ac) of
             Inl e \<Rightarrow> Inl e
           | Inr am \<Rightarrow>
      (let attributes = AList.update ''airtouch.aircon.activeMode'' (AStr am) attributes
       in (case enum_name (active_fan_speed ac) of
             Inl e \<Rightarrow> Inl e
           | Inr fs \<Rightarrow>
      (let attributes = AList.update ''airtouch.aircon.activeFanSpeed'' (AStr fs) attributes;
           attributes = (case ac_current_temperature ac of
               Some t \<Rightarrow>
                 AList.update ''airtouch.aircon.currentTemperature'' (AFloat t) attributes
             | None \<Rightarrow> attributes);
           attributes = (case ac_target_temperature ac of
               Some t \<Rightarrow>
                 AList.update ''airtouch.aircon.targetTemperature'' (AFloat t) attributes
             | None \<Rightarrow> attributes)
       in Inr attributes)))))))))"

text \<open>
  The body of the loop over \<^verbatim>\<open>aircon.zones\<close> (lines 111 to 151) for one zone: a
  zone with no temperature is logged and skipped (\<^verbatim>\<open>continue\<close>); otherwise the
  attributes are built, the gauge is set and the update is logged. The zone name of the
  last message is \<^verbatim>\<open>attributes['airtouch.zone.name']\<close>, the value stored by line 124.
  There is no \<^verbatim>\<open>try\<close> in the handler: an exception leaves the body immediately.
\<close>

definition process_zone ::
  "gauge \<Rightarrow> airtouch \<Rightarrow> aircon \<Rightarrow> zone \<Rightarrow> world \<Rightarrow> py_error option \<times> world" where
  "process_zone temp_gauge airtouch ac z w =
     (case zone_current_temperature z of
        None \<Rightarrow>
          (None, logging_info
             (''Skipping metric for Zone '' @ [CHR 0x27]
                @ (case zone_name z of Some n \<Rightarrow> n | None \<Rightarrow> str_int (zone_id z))
                @ [CHR 0x27] @ '' due to no temperature reading.'') w)
      | Some metric_value \<Rightarrow>
          (case build_attributes airtouch ac z of
             Inl e \<Rightarrow> (Some e, w)
           | Inr attributes \<Rightarrow>
               (case temp_gauge metric_value attributes w of
                  (Some e, w') \<Rightarrow> (Some e, w')
                | (None, w') \<Rightarrow>
                    (None, logging_info
                       (''Updated metric '' @ [CHR 0x27] @ ''airtouch.zone.temperature''
                          @ [CHR 0x27] @ '' for Zone '' @ [CHR 0x27] @ zone_attr_name z
                          @ [CHR 0x27]) w'))))"

text \<open>The loop \<^verbatim>\<open>for zone in aircon.zones\<close>: the first exception ends it.\<close>

fun process_zones ::
  "gauge \<Rightarrow> airtouch \<Rightarrow> aircon \<Rightarrow> zone list \<Rightarrow> world \<Rightarrow> py_error option \<times> world" where
  "process_zones temp_gauge airtouch ac [] w = (None, w)"
| "process_zones temp_gauge airtouch ac (z # zs) w =
     (case process_zone temp_gauge airtouch ac z w of
        (Some e, w') \<Rightarrow> (Some e, w')
      | (None, w') \<Rightarrow> process_zones temp_gauge airtouch ac zs w')"

text \<open>
  Lines 108 to 151, for the air conditioner the lookup returned. The first message
  reads \<^verbatim>\<open>aircon.name\<close> directly, which raises when the object has no such attribute.
\<close>

definition report_aircon ::
  "gauge \<Rightarrow> airtouch \<Rightarrow> int \<Rightarrow> aircon \<Rightarrow> world \<Rightarrow> py_error option \<times> world" where
  "report_aircon temp_gauge airtouch i ac w =
     (case ac_name ac of
        None \<Rightarrow> (Some AttributeError, w)
      | Some n \<Rightarrow>
          process_zones temp_gauge airtouch ac (zones ac)
            (logging_info
               (''Telemetry update received for AC '' @ str_int i @ '' ('' @ n @ '').'') w))"

text \<open>
  \<^verbatim>\<open>_on_ac_status_updated(ac_id)\<close>, a closure over the controller and the gauge of its
  monitor. Line 107 indexes \<^verbatim>\<open>airtouch.air_conditioners\<close> with the identifier.
\<close>

definition on_ac_status_updated ::
  "gauge \<Rightarrow> airtouch \<Rightarrow> int \<Rightarrow> world \<Rightarrow> py_error option \<times> world" where
  "on_ac_status_updated temp_gauge airtouch i w =
     (case getitem (air_conditioners airtouch) i of
        Inl e \<Rightarrow> (Some e, w)
      | Inr ac \<Rightarrow> report_aircon temp_gauge airtouch i ac w)"

section \<open>The device monitor\<close>

text \<open>\<^verbatim>\<open>_airtouch_id\<close>: the name and the host of a controller, for messages.\<close>

definition airtouch_id :: "airtouch \<Rightarrow> string" where
  "airtouch_id airtouch = airtouch_name airtouch @ '' ('' @ host airtouch @ '')''"

text \<open>
  \<^verbatim>\<open>_monitor_airtouch\<close> is a coroutine with two suspension points: the
  \<^verbatim>\<open>await airtouch.init()\<close> of line 90, which the controller answers, and the
  \<^verbatim>\<open>await asyncio.Event().wait()\<close> of line 158, which nothing ever sets. The handler
  awaits nothing, so lines 91 to 157 run without suspension. The monitor is therefore two
  functions: the start, which calls \<^verbatim>\<open>init\<close> and suspends, and the resumption with
  what \<^verbatim>\<open>init\<close> returned or raised, which ends in one of three ways.
\<close>

datatype init_result = InitReturned bool | InitRaised py_error

datatype monitor_outcome = Return | Park | Raise py_error

definition monitor_airtouch_start :: "nat \<Rightarrow> world \<Rightarrow> world" where
  "monitor_airtouch_start i w = do_call (Init i) w"

text \<open>
  The loop of lines 154 to 156 over \<^verbatim>\<open>airtouch.air_conditioners\<close>, from position \<open>k\<close>
  on: subscribe the handler, then call it with the identifier of the air conditioner.
  An exception of the handler is caught nowhere in the monitor and ends the loop.
\<close>

fun subscribe_all ::
  "nat \<Rightarrow> airtouch \<Rightarrow> nat \<Rightarrow> aircon list \<Rightarrow> world \<Rightarrow> py_error option \<times> world" where
  "subscribe_all i airtouch k [] w = (None, w)"
| "subscribe_all i airtouch k (ac # acs) w =
     (case on_ac_status_updated (gauge_set i) airtouch (ac_id ac) (do_call (Subscribe i k) w) of
        (Some e, w') \<Rightarrow> (Some e, w')
      | (None, w') \<Rightarrow> subscribe_all i airtouch (Suc k) acs w')"

definition monitor_airtouch_resume ::
  "nat \<Rightarrow> airtouch \<Rightarrow> init_result \<Rightarrow> world \<Rightarrow> monitor_outcome \<times> world" where
  "monitor_airtouch_resume i airtouch r w =
     (case r of
        InitRaised e \<Rightarrow> (Raise e, w)
      | InitReturned success \<Rightarrow>
          if \<not> success then
            (Return, msg (''Error: '' @ airtouch_id airtouch @ '' initialisation failed.'') w)
          else
            (let w = msg (''Continuously monitoring '' @ [CHR 0x27] @ airtouch_id airtouch
                          @ [CHR 0x27] @ ''...'') w;
                 w = do_call (CreateGauge i ''airtouch.zone.temperature'' ''C'') w
             in (case subscribe_all i airtouch 0 (air_conditioners airtouch) w of
                   (Some e, w') \<Rightarrow> (Raise e, w')
                 | (None, w') \<Rightarrow> (Park, w'))))"

section \<open>Start-up, the task group and the exit of the process\<close>

text \<open>
  What the process is started with: the value of \<^verbatim>\<open>NEW_RELIC_LICENSE_KEY\<close> in the
  environment, the \<^verbatim>\<open>--host\<close> argument, what the constructor of the exporter raises
  (if anything) and the list \<^verbatim>\<open>pyairtouch.discover\<close> returns.
\<close>

record env =
  NEW_RELIC_KEY :: "string option"
  airtouch_host :: "string option"
  exporter_error :: "py_error option"
  discovered_airtouches :: "airtouch list"

datatype meter = Meter string

text \<open>
  \<^verbatim>\<open>setup_opentelemetry\<close>: \<^verbatim>\<open>not NEW_RELIC_KEY\<close> holds of \<^verbatim>\<open>None\<close> and of the empty
  string.
\<close>

definition setup_opentelemetry ::
  "string option \<Rightarrow> py_error option \<Rightarrow> world \<Rightarrow> (py_error + meter) \<times> world" where
  "setup_opentelemetry key sdk w =
     (case key of
        None \<Rightarrow> (Inl ValueError, w)
      | Some k \<Rightarrow>
          if k = [] then (Inl ValueError, w)
          else
            (let w = do_call (OTLPMetricExporter ''https://otlp.nr-data.net:4317/v1/metrics'' k) w
             in (case sdk of
                   Some e \<Rightarrow> (Inl e, w)
                 | None \<Rightarrow>
                     (Inr (Meter ''pyairtouch.monitor''),
                      do_call (GetMeter ''pyairtouch.monitor'')
                        (do_call SetMeterProvider
                           (do_call MeterProvider
                              (do_call PeriodicExportingMetricReader w)))))))"

text \<open>
  The tasks of the \<^verbatim>\<open>asyncio.TaskGroup\<close> of line 180, one per controller, and the
  process. A task is suspended in \<^verbatim>\<open>init\<close>, suspended for ever at line 158, returned,
  failed with an exception, or cancelled. The module never calls \<^verbatim>\<open>sys.exit\<close>: the
  process ends by running off the end of the script, with exit status 0.
\<close>

datatype task_state = Initializing | Active | Returned | Failed py_error | Cancelled

datatype process_state = Running | Exited int

record system =
  sys_world :: world
  handles :: "airtouch list"
  tasks :: "task_state list"
  process :: process_state

definition empty_world :: world where
  "empty_world = \<lparr>logged = [], calls = []\<rparr>"

text \<open>
  The handler of the last \<^verbatim>\<open>except Exception\<close> of the script (lines 204 and 205): the
  exception is logged and the script ends.
\<close>

definition unexpected_error :: "py_error \<Rightarrow> system \<Rightarrow> system" where
  "unexpected_error e s =
     s\<lparr>sys_world := logging_exception
          ''An unexpected error occurred and the program has to stop.'' e (sys_world s),
       process := Exited 0\<rparr>"

text \<open>
  \<^verbatim>\<open>asyncio.run(main(cli_args))\<close> up to the point where \<^verbatim>\<open>main\<close> waits in the exit of
  \<^verbatim>\<open>async with\<close>: the meter, the two messages, discovery, and one task per controller,
  each run up to its \<^verbatim>\<open>await airtouch.init()\<close>. The parsing of the arguments and the
  set-up of the logger that precede it in the script write nothing and are left out.
\<close>

definition start :: "env \<Rightarrow> system" where
  "start e =
     (case setup_opentelemetry (NEW_RELIC_KEY e) (exporter_error e) empty_world of
        (Inl err, w) \<Rightarrow>
          unexpected_error err \<lparr>sys_world = w, handles = [], tasks = [], process = Running\<rparr>
      | (Inr m, w) \<Rightarrow>
          (let w = (case airtouch_host e of
                      None \<Rightarrow> msg ''Searching for AirTouch systems on the local network...'' w
                    | Some h \<Rightarrow>
                        if h = [] then
                          msg ''Searching for AirTouch systems on the local network...'' w
                        else msg (''Attempting to connect to AirTouch at '' @ h @ ''...'') w);
               w = do_call (Discover (airtouch_host e)) w;
               ds = discovered_airtouches e
           in if ds = [] then
                \<lparr>sys_world = msg ''No AirTouch systems were discovered.'' w,
                 handles = [], tasks = [], process = Exited 0\<rparr>
              else
                (let w = msg (''Discovered '' @ str_int (int (length ds))
                              @ '' AirTouch system(s):'') w;
                     w = fold (\<lambda>a. msg (''  - '' @ airtouch_id a)) ds w;
                     w = fold monitor_airtouch_start [0..<length ds] w
                 in \<lparr>sys_world = w, handles = ds,
                     tasks = replicate (length ds) Initializing, process = Running\<rparr>)))"

text \<open>
  What happens next is up to the controllers and the operator. The event loop runs the
  tasks that are ready one after the other, and runs the callbacks of the task group for
  the tasks that ended only in its next iteration. \<open>InitBatch\<close> is one iteration: it lists
  the controllers whose \<^verbatim>\<open>init\<close> has answered when the iteration starts, each with its
  answer, in the order in which their tasks run. \<open>InitDone i r\<close> is the iteration in which
  the task of controller \<open>i\<close> is the only one that is ready. \<open>Interrupt\<close> is the
  operator's.
\<close>

datatype event =
    InitDone nat init_result
  | InitBatch "(nat \<times> init_result) list"
  | Interrupt

text \<open>
  A task group that is aborted, by the failure of a task or by the cancellation of
  \<^verbatim>\<open>main\<close>, cancels every task that is not done.
\<close>

definition cancel_pending :: "task_state list \<Rightarrow> task_state list" where
  "cancel_pending ts =
     map (\<lambda>t. if t = Initializing \<or> t = Active then Cancelled else t) ts"

text \<open>
  The ready tasks of one iteration resume in turn. A task that raises ends with its
  exception; the group has not been told yet, so the tasks after it in the same iteration
  still resume, and may raise as well. The exceptions are collected in the order raised.
  An answer for a task that is not waiting in \<^verbatim>\<open>init\<close> resumes nothing.
\<close>

fun resume_all ::
  "(nat \<times> init_result) list \<Rightarrow> py_error list \<Rightarrow> system \<Rightarrow> py_error list \<times> system" where
  "resume_all [] errors s = (errors, s)"
| "resume_all ((i, r) # answers) errors s =
     (if i < length (tasks s) \<and> tasks s ! i = Initializing then
        (case monitor_airtouch_resume i (handles s ! i) r (sys_world s) of
           (Park, w) \<Rightarrow>
             resume_all answers errors (s\<lparr>sys_world := w, tasks := (tasks s)[i := Active]\<rparr>)
         | (Return, w) \<Rightarrow>
             resume_all answers errors (s\<lparr>sys_world := w, tasks := (tasks s)[i := Returned]\<rparr>)
         | (Raise e, w) \<Rightarrow>
             resume_all answers (errors @ [e])
               (s\<lparr>sys_world := w, tasks := (tasks s)[i := Failed e]\<rparr>))
      else resume_all answers errors s)"

text \<open>
  The callbacks of the task group after the iteration. When a task has raised, the group
  cancels the tasks that are not done and raises an \<^verbatim>\<open>ExceptionGroup\<close> of the collected
  exceptions out of \<^verbatim>\<open>main\<close>, which the \<^verbatim>\<open>except Exception\<close> of the script logs. When
  every task has returned, the group is left, \<^verbatim>\<open>main\<close> returns and the script ends.
\<close>

definition settle_group :: "py_error list \<Rightarrow> system \<Rightarrow> system" where
  "settle_group errors s =
     (if errors \<noteq> [] then
        unexpected_error (ExceptionGroup errors) (s\<lparr>tasks := cancel_pending (tasks s)\<rparr>)
      else if list_all (\<lambda>t. t = Returned) (tasks s) then s\<lparr>process := Exited 0\<rparr>
      else s)"

text \<open>
  One event. On an interrupt \<^verbatim>\<open>asyncio.run\<close> cancels \<^verbatim>\<open>main\<close> and its tasks and raises
  \<^verbatim>\<open>KeyboardInterrupt\<close>, which line 203 reports. A task that resumes before \<^verbatim>\<open>main\<close> is
  cancelled belongs to an earlier iteration, and when a task has raised the exception group
  has priority over the cancellation, so that the process has ended by the iteration of the
  failure. Nothing happens once the process has exited.
\<close>

definition step :: "event \<Rightarrow> system \<Rightarrow> system" where
  "step ev s =
     (if process s \<noteq> Running then s
      else
        (case ev of
           Interrupt \<Rightarrow>
             s\<lparr>sys_world := msg (CHR 0x0A # ''Monitoring stopped by user.'') (sys_world s),
               tasks := cancel_pending (tasks s),
               process := Exited 0\<rparr>
         | InitDone i r \<Rightarrow>
             (case resume_all [(i, r)] [] s of (errors, s') \<Rightarrow> settle_group errors s')
         | InitBatch answers \<Rightarrow>
             (case resume_all answers [] s of (errors, s') \<Rightarrow> settle_group errors s')))"

definition run :: "env \<Rightarrow> event list \<Rightarrow> system" where
  "run e evs = fold step evs (start e)"

section \<open>Well-formed state and the vocabulary of the properties\<close>

text \<open>
  A zone or an air conditioner is well formed for the attributes when the enum fields
  whose \<^verbatim>\<open>.name\<close> is read hold a member. The handler builds attributes only for the zones
  that have a temperature, and reads \<^verbatim>\<open>aircon.name\<close> directly: an air conditioner is well
  formed for the handler when it has a name and every zone of it either has no temperature
  or can be given its attributes.
\<close>

definition wf_zone :: "zone \<Rightarrow> bool" where
  "wf_zone z = (control_method z \<noteq> None)"

definition wf_aircon_state :: "aircon \<Rightarrow> bool" where
  "wf_aircon_state ac =
     (ac_power_state ac \<noteq> None \<and> active_mode ac \<noteq> None \<and> active_fan_speed ac \<noteq> None)"

definition reportable_zone :: "aircon \<Rightarrow> zone \<Rightarrow> bool" where
  "reportable_zone ac z =
     (zone_current_temperature z = None \<or> (wf_zone z \<and> wf_aircon_state ac))"

definition wf_aircon :: "aircon \<Rightarrow> bool" where
  "wf_aircon ac = (ac_name ac \<noteq> None \<and> list_all (reportable_zone ac) (zones ac))"

definition member_name :: "enum_member \<Rightarrow> string" where
  "member_name m = (case m of Member n \<Rightarrow> n)"

text \<open>
  The twelve keys every attribute mapping has, in the order the handler stores them:
  nine before the optional keys of the zone, three before those of the air conditioner.
\<close>

definition zone_keys :: "string list" where
  "zone_keys =
     [''airtouch.ac.id'', ''airtouch.ac.name'', ''airtouch.zone.id'', ''airtouch.zone.name'',
      ''airtouch.host'', ''airtouch.zone.powerState'', ''airtouch.zone.controlMethod'',
      ''airtouch.zone.spill'', ''airtouch.zone.lowBattery'']"

definition aircon_keys :: "string list" where
  "aircon_keys =
     [''airtouch.aircon.powerState'', ''airtouch.aircon.activeMode'',
      ''airtouch.aircon.activeFanSpeed'']"

definition mandatory_keys :: "string list" where
  "mandatory_keys = zone_keys @ aircon_keys"

definition present_key :: "string \<Rightarrow> 'a option \<Rightarrow> string list" where
  "present_key k v = (if v = None then [] else [k])"

definition optional_keys :: "aircon \<Rightarrow> zone \<Rightarrow> string list" where
  "optional_keys ac z =
     present_key ''airtouch.zone.setPoint'' (zone_target_temperature z)
     @ present_key ''airtouch.zone.openPercentage'' (current_damper_percentage z)
     @ present_key ''airtouch.aircon.currentTemperature'' (ac_current_temperature ac)
     @ present_key ''airtouch.aircon.targetTemperature'' (ac_target_temperature ac)"

text \<open>
  The samples a notification for an air conditioner is expected to record on the gauge
  of monitor \<open>i\<close>: one per zone with a temperature, in the order of the zones.
\<close>

definition expected_samples :: "nat \<Rightarrow> airtouch \<Rightarrow> aircon \<Rightarrow> call list" where
  "expected_samples i airtouch ac =
     map (\<lambda>z. GaugeSet i (the (zone_current_temperature z))
                 (projr (build_attributes airtouch ac z)))
       (filter (\<lambda>z. zone_current_temperature z \<noteq> None) (zones ac))"

text \<open>The calls a monitor makes after \<^verbatim>\<open>init\<close>, by the monitor that makes them.\<close>

fun made_by :: "nat \<Rightarrow> call \<Rightarrow> bool" where
  "made_by i (CreateGauge j n u) = (j = i)"
| "made_by i (Subscribe j k) = (j = i)"
| "made_by i (GaugeSet j v a) = (j = i)"
| "made_by i c = False"


fun is_create_gauge :: "call \<Rightarrow> bool" where
  "is_create_gauge (CreateGauge j n u) = True"
| "is_create_gauge c = False"

fun is_monitor_call :: "call \<Rightarrow> bool" where
  "is_monitor_call (CreateGauge j n u) = True"
| "is_monitor_call (Subscribe j k) = True"
| "is_monitor_call (GaugeSet j v a) = True"
| "is_monitor_call c = False"

section \<open>Example states\<close>

definition ex_zone_a :: zone where
  "ex_zone_a =
     \<lparr>zone_id = 0, zone_name = Some ''Living'', zone_power_state = Member ''ON'',
      control_method = Some (Member ''TEMP''), spill_active = False, low_battery = None,
      zone_target_temperature = Some 22, current_damper_percentage = Some 100,
      zone_current_temperature = Some 21\<rparr>"

definition ex_zone_b :: zone where
  "ex_zone_b =
     \<lparr>zone_id = 1, zone_name = None, zone_power_state = Member ''OFF'',
      control_method = Some (Member ''DAMPER''), spill_active = True, low_battery = Some True,
      zone_target_temperature = None, current_damper_percentage = None,
      zone_current_temperature = None\<rparr>"

definition ex_zone_c :: zone where
  "ex_zone_c =
     \<lparr>zone_id = 2, zone_name = Some ''Study'', zone_power_state = Member ''OFF'',
      control_method = Some (Member ''DAMPER''), spill_active = False, low_battery = Some False,
      zone_target_temperature = None, current_damper_percentage = Some 0,
      zone_current_temperature = Some 19\<rparr>"

definition ex_aircon :: aircon where
  "ex_aircon =
     \<lparr>ac_id = 0, ac_name = Some ''Main'', ac_power_state = Some (Member ''ON''),
      active_mode = Some (Member ''COOL''), active_fan_speed = Some (Member ''LOW''),
      ac_current_temperature = Some 23, ac_target_temperature = None,
      zones = [ex_zone_a, ex_zone_b, ex_zone_c]\<rparr>"

definition ex_airtouch :: airtouch where
  "ex_airtouch =
     \<lparr>airtouch_name = ''Home'', host = ''192.168.1.20'', air_conditioners = [ex_aircon]\<rparr>"

text \<open>
  The same air conditioner with a second zone that has a temperature and no control
  method, an air conditioner whose identifier is not its position, and a second controller.
\<close>

definition ex_zone_bad :: zone where
  "ex_zone_bad = ex_zone_b\<lparr>control_method := None, zone_current_temperature := Some 20\<rparr>"

definition ex_aircon_bad :: aircon where
  "ex_aircon_bad = ex_aircon\<lparr>zones := [ex_zone_a, ex_zone_bad, ex_zone_c]\<rparr>"

definition ex_airtouch_bad :: airtouch where
  "ex_airtouch_bad = ex_airtouch\<lparr>air_conditioners := [ex_aircon_bad]\<rparr>"

definition ex_airtouch_shifted :: airtouch where
  "ex_airtouch_shifted = ex_airtouch\<lparr>air_conditioners := [ex_aircon\<lparr>ac_id := 1\<rparr>]\<rparr>"

definition ex_airtouch2 :: airtouch where
  "ex_airtouch2 =
     \<lparr>airtouch_name = ''Shed'', host = ''192.168.1.21'',
      air_conditioners = [ex_aircon\<lparr>zones := [ex_zone_c]\<rparr>]\<rparr>"

definition ex_env_shifted :: env where
  "ex_env_shifted =
     \<lparr>NEW_RELIC_KEY = Some ''licence'', airtouch_host = None, exporter_error = None,
      discovered_airtouches = [ex_airtouch_shifted, ex_airtouch2]\<rparr>"

definition ex_env :: env where
  "ex_env =
     \<lparr>NEW_RELIC_KEY = Some ''licence'', airtouch_host = None, exporter_error = None,
      discovered_airtouches = [ex_airtouch, ex_airtouch2]\<rparr>"

section \<open>The attribute builder\<close>

lemma enum_name_Some: "enum_name (Some m) = Inr (member_name m)"
  by (cases m) (simp add: enum_name_def member_name_def)

lemma build_attributes_facts:
  assumes "control_method z = Some cm" "ac_power_state ac = Some ps"
    "active_mode ac = Some am" "active_fan_speed ac = Some fs"
  shows "\<exists>attrs. build_attributes airtouch ac z = Inr attrs
    \<and> map fst attrs = zone_keys
        @ present_key ''airtouch.zone.setPoint'' (zone_target_temperature z)
        @ present_key ''airtouch.zone.openPercentage'' (current_damper_percentage z)
        @ aircon_keys
        @ present_key ''airtouch.aircon.currentTemperature'' (ac_current_temperature ac)
        @ present_key ''airtouch.aircon.targetTemperature'' (ac_target_temperature ac)
    \<and> distinct (map fst attrs)
    \<and> map_of attrs ''airtouch.ac.id'' = Some (AInt (ac_id ac))
    \<and> map_of attrs ''airtouch.ac.name'' = Some (AStr (aircon_attr_name ac))
    \<and> map_of attrs ''airtouch.zone.id'' = Some (AInt (zone_id z))
    \<and> map_of attrs ''airtouch.zone.name'' = Some (AStr (zone_attr_name z))
    \<and> map_of attrs ''airtouch.host'' = Some (AStr (host airtouch))
    \<and> map_of attrs ''airtouch.zone.powerState''
          = Some (AInt (if zone_power_state z = ZonePowerState_ON then 1 else 0))
    \<and> map_of attrs ''airtouch.zone.controlMethod'' = Some (AStr (member_name cm))
    \<and> map_of attrs ''airtouch.zone.spill'' = Some (AInt (if spill_active z then 1 else 0))
    \<and> map_of attrs ''airtouch.zone.lowBattery''
          = Some (AInt (if low_battery z = Some True then 1 else 0))
    \<and> map_of attrs ''airtouch.aircon.powerState'' = Some (AStr (member_name ps))
    \<and> map_of attrs ''airtouch.aircon.activeMode'' = Some (AStr (member_name am))
    \<and> map_of attrs ''airtouch.aircon.activeFanSpeed'' = Some (AStr (member_name fs))
    \<and> map_of attrs ''airtouch.zone.setPoint'' = map_option AFloat (zone_target_temperature z)
    \<and> map_of attrs ''airtouch.zone.openPercentage''
          = map_option AInt (current_damper_percentage z)
    \<and> map_of attrs ''airtouch.aircon.currentTemperature''
          = map_option AFloat (ac_current_temperature ac)
    \<and> map_of attrs ''airtouch.aircon.targetTemperature''
          = map_option AFloat (ac_target_temperature ac)"
  using assms
  by (cases "zone_target_temperature z"; cases "current_damper_percentage z";
      cases "ac_current_temperature ac"; cases "ac_target_temperature ac")
     (simp_all add: build_attributes_def enum_name_Some Let_def zone_keys_def aircon_keys_def
        present_key_def split: option.splits)

lemma keys_as_sets:
  "set (zk @ o1 @ o2 @ ak @ o3 @ o4) = set (zk @ ak) \<union> set (o1 @ o2 @ o3 @ o4)"
  by auto

lemma length_mandatory_keys: "length mandatory_keys = 12 \<and> distinct mandatory_keys"
  by (simp add: mandatory_keys_def zone_keys_def aircon_keys_def)

text \<open>
  Claim C2. For a well-formed air conditioner and a well-formed zone of it the attribute
  builder returns a mapping and does not raise. Its keys are distinct, and they are the
  twelve mandatory keys together with the optional keys whose source value is present.
  Every mandatory key carries the value read from the state: the air conditioner's name
  or \<open>AC-<id>\<close>, the zone's name or \<open>Zone-<id>\<close>, 1 or 0 for the power state, the
  spill flag and the low-battery flag, and the names of the enum members. Each optional
  key is bound exactly when its source value is present, and to that value.
\<close>

theorem attribute_builder_keys:
  assumes "wf_zone z" and "wf_aircon_state ac"
  shows "\<exists>attrs. build_attributes airtouch ac z = Inr attrs
    \<and> distinct (map fst attrs)
    \<and> set (map fst attrs) = set mandatory_keys \<union> set (optional_keys ac z)
    \<and> length attrs = 12 + length (optional_keys ac z)
    \<and> length mandatory_keys = 12
    \<and> map_of attrs ''airtouch.ac.id'' = Some (AInt (ac_id ac))
    \<and> map_of attrs ''airtouch.ac.name''
          = Some (AStr (case ac_name ac of Some n \<Rightarrow> n | None \<Rightarrow> ''AC-'' @ str_int (ac_id ac)))
    \<and> map_of attrs ''airtouch.zone.id'' = Some (AInt (zone_id z))
    \<and> map_of attrs ''airtouch.zone.name''
          = Some (AStr (case zone_name z of Some n \<Rightarrow> n | None \<Rightarrow> ''Zone-'' @ str_int (zone_id z)))
    \<and> map_of attrs ''airtouch.host'' = Some (AStr (host airtouch))
    \<and> map_of attrs ''airtouch.zone.powerState''
          = Some (AInt (if zone_power_state z = ZonePowerState_ON then 1 else 0))
    \<and> map_of attrs ''airtouch.zone.controlMethod''
          = Some (AStr (member_name (the (control_method z))))
    \<and> map_of attrs ''airtouch.zone.spill'' = Some (AInt (if spill_active z then 1 else 0))
    \<and> map_of attrs ''airtouch.zone.lowBattery''
          = Some (AInt (if low_battery z = Some True then 1 else 0))
    \<and> map_of attrs ''airtouch.aircon.powerState''
          = Some (AStr (member_name (the (ac_power_state ac))))
    \<and> map_of attrs ''airtouch.aircon.activeMode''
          = Some (AStr (member_name (the (active_mode ac))))
    \<and> map_of attrs ''airtouch.aircon.activeFanSpeed''
          = Some (AStr (member_name (the (active_fan_speed ac))))
    \<and> map_of attrs ''airtouch.zone.setPoint'' = map_option AFloat (zone_target_temperature z)
    \<and> map_of attrs ''airtouch.zone.openPercentage''
          = map_option AInt (current_damper_percentage z)
    \<and> map_of attrs ''airtouch.aircon.currentTemperature''
          = map_option AFloat (ac_current_temperature ac)
    \<and> map_of attrs ''airtouch.aircon.targetTemperature''
          = map_option AFloat (ac_target_temperature ac)"
proof -
  from assms obtain cm ps am fs where f:
    "control_method z = Some cm" "ac_power_state ac = Some ps"
    "active_mode ac = Some am" "active_fan_speed ac = Some fs"
    by (auto simp: wf_zone_def wf_aircon_state_def)
  from build_attributes_facts [OF f, of airtouch] obtain attrs where a:
    "build_attributes airtouch ac z = Inr attrs"
    "map fst attrs = zone_keys
        @ present_key ''airtouch.zone.setPoint'' (zone_target_temperature z)
        @ present_key ''airtouch.zone.openPercentage'' (current_damper_percentage z)
        @ aircon_keys
        @ present_key ''airtouch.aircon.currentTemperature'' (ac_current_temperature ac)
        @ present_key ''airtouch.aircon.targetTemperature'' (ac_target_temperature ac)"
    and rest: "distinct (map fst attrs)
    \<and> map_of attrs ''airtouch.ac.id'' = Some (AInt (ac_id ac))
    \<and> map_of attrs ''airtouch.ac.name'' = Some (AStr (aircon_attr_name ac))
    \<and> map_of attrs ''airtouch.zone.id'' = Some (AInt (zone_id z))
    \<and> map_of attrs ''airtouch.zone.name'' = Some (AStr (zone_attr_name z))
    \<and> map_of attrs ''airtouch.host'' = Some (AStr (host airtouch))
    \<and> map_of attrs ''airtouch.zone.powerState''
          = Some (AInt (if zone_power_state z = ZonePowerState_ON then 1 else 0))
    \<and> map_of attrs ''airtouch.zone.controlMethod'' = Some (AStr (member_name cm))
    \<and> map_of attrs ''airtouch.zone.spill'' = Some (AInt (if spill_active z then 1 else 0))
    \<and> map_of attrs ''airtouch.zone.lowBattery''
          = Some (AInt (if low_battery z = Some True then 1 else 0))
    \<and> map_of attrs ''airtouch.aircon.powerState'' = Some (AStr (member_name ps))
    \<and> map_of attrs ''airtouch.aircon.activeMode'' = Some (AStr (member_name am))
    \<and> map_of attrs ''airtouch.aircon.activeFanSpeed'' = Some (AStr (member_name fs))
    \<and> map_of attrs ''airtouch.zone.setPoint'' = map_option AFloat (zone_target_temperature z)
    \<and> map_of attrs ''airtouch.zone.openPercentage''
          = map_option AInt (current_damper_percentage z)
    \<and> map_of attrs ''airtouch.aircon.currentTemperature''
          = map_option AFloat (ac_current_temperature ac)
    \<and> map_of attrs ''airtouch.aircon.targetTemperature''
          = map_option AFloat (ac_target_temperature ac)"
    by blast
  have keys: "set (map fst attrs) = set mandatory_keys \<union> set (optional_keys ac z)"
    unfolding a(2) mandatory_keys_def optional_keys_def by (rule keys_as_sets)
  have "length (map fst attrs) = 12 + length (optional_keys ac z)"
    unfolding a(2) optional_keys_def by (simp add: zone_keys_def aircon_keys_def)
  then have len: "length attrs = 12 + length (optional_keys ac z)" by simp
  show ?thesis
    using a(1) keys len rest length_mandatory_keys f
    by (simp add: aircon_attr_name_def zone_attr_name_def)
qed

theorem attribute_builder_keys_witness:
  "wf_zone ex_zone_b \<and> wf_aircon_state ex_aircon
   \<and> (\<exists>attrs. build_attributes ex_airtouch ex_aircon ex_zone_b = Inr attrs
        \<and> length attrs = 13
        \<and> map_of attrs ''airtouch.zone.name'' = Some (AStr ''Zone-1'')
        \<and> map_of attrs ''airtouch.zone.lowBattery'' = Some (AInt 1)
        \<and> map_of attrs ''airtouch.zone.setPoint'' = None
        \<and> map_of attrs ''airtouch.aircon.currentTemperature'' = Some (AFloat 23))"
proof -
  have h1: "wf_zone ex_zone_b"
    by (simp add: wf_zone_def ex_zone_b_def)
  have h2: "wf_aircon_state ex_aircon"
    by (simp add: wf_aircon_state_def ex_aircon_def)
  from attribute_builder_keys [OF h1 h2, of ex_airtouch] obtain attrs where
    b: "build_attributes ex_airtouch ex_aircon ex_zone_b = Inr attrs"
    and l: "length attrs = 12 + length (optional_keys ex_aircon ex_zone_b)"
    and n: "map_of attrs ''airtouch.zone.name''
          = Some (AStr (case zone_name ex_zone_b of Some n \<Rightarrow> n
                        | None \<Rightarrow> ''Zone-'' @ str_int (zone_id ex_zone_b)))"
    and lb: "map_of attrs ''airtouch.zone.lowBattery''
          = Some (AInt (if low_battery ex_zone_b = Some True then 1 else 0))"
    and sp: "map_of attrs ''airtouch.zone.setPoint''
          = map_option AFloat (zone_target_temperature ex_zone_b)"
    and ct: "map_of attrs ''airtouch.aircon.currentTemperature''
          = map_option AFloat (ac_current_temperature ex_aircon)"
    by blast
  have l': "length attrs = 13"
    using l by (simp add: optional_keys_def present_key_def ex_zone_b_def ex_aircon_def)
  have n': "map_of attrs ''airtouch.zone.name'' = Some (AStr ''Zone-1'')"
    using n by (simp add: ex_zone_b_def str_int_def str_nat.simps digit_char_def)
  have lb': "map_of attrs ''airtouch.zone.lowBattery'' = Some (AInt 1)"
    using lb by (simp add: ex_zone_b_def)
  have sp': "map_of attrs ''airtouch.zone.setPoint'' = None"
    using sp by (simp add: ex_zone_b_def)
  have ct': "map_of attrs ''airtouch.aircon.currentTemperature'' = Some (AFloat 23)"
    using ct by (simp add: ex_aircon_def)
  show ?thesis
    using h1 h2 b l' n' lb' sp' ct' by (intro conjI exI [of _ attrs])
qed

section \<open>The samples of a notification\<close>

lemma build_attributes_returns:
  assumes "wf_zone z" and "wf_aircon_state ac"
  shows "\<exists>a. build_attributes airtouch ac z = Inr a"
  using assms
  by (auto simp: wf_zone_def wf_aircon_state_def build_attributes_def enum_name_Some Let_def)



lemma process_zone_wf:
  assumes "reportable_zone ac z"
  shows "\<exists>w'. process_zone (gauge_set g) airtouch ac z w = (None, w')
     \<and> calls w' = calls w @ map (\<lambda>z. GaugeSet g (the (zone_current_temperature z))
                 (projr (build_attributes airtouch ac z)))
       (filter (\<lambda>z. zone_current_temperature z \<noteq> None) [z])"
proof (cases "zone_current_temperature z")
  case None
  then show ?thesis by (simp add: process_zone_def logging_info_def)
next
  case (Some t)
  with assms have "wf_zone z" and "wf_aircon_state ac"
    by (simp_all add: reportable_zone_def)
  from build_attributes_returns [OF this] obtain a
    where "build_attributes airtouch ac z = Inr a" by blast
  with Some show ?thesis
    by (simp add: process_zone_def logging_info_def gauge_set_def do_call_def)
qed


lemma process_zones_wf:
  assumes "list_all (reportable_zone ac) zs"
  shows "\<exists>w'. process_zones (gauge_set g) airtouch ac zs w = (None, w')
     \<and> calls w' = calls w @ map (\<lambda>z. GaugeSet g (the (zone_current_temperature z))
                 (projr (build_attributes airtouch ac z)))
       (filter (\<lambda>z. zone_current_temperature z \<noteq> None) zs)"
  using assms
proof (induction zs arbitrary: w)
  case Nil
  then show ?case by simp
next
  case (Cons z zs)
  then have "reportable_zone ac z" and rest: "list_all (reportable_zone ac) zs" by simp_all
  from process_zone_wf [OF \<open>reportable_zone ac z\<close>, of g airtouch w] obtain w1 where
    one: "process_zone (gauge_set g) airtouch ac z w = (None, w1)"
    and c1: "calls w1 = calls w @ map (\<lambda>z. GaugeSet g (the (zone_current_temperature z))
                 (projr (build_attributes airtouch ac z)))
       (filter (\<lambda>z. zone_current_temperature z \<noteq> None) [z])"
    by blast
  from Cons.IH [OF rest, of w1] obtain w2 where
    two: "process_zones (gauge_set g) airtouch ac zs w1 = (None, w2)"
    and c2: "calls w2 = calls w1 @ map (\<lambda>z. GaugeSet g (the (zone_current_temperature z))
                 (projr (build_attributes airtouch ac z)))
       (filter (\<lambda>z. zone_current_temperature z \<noteq> None) zs)"
    by blast
  have "process_zones (gauge_set g) airtouch ac (z # zs) w = (None, w2)"
    using one two by simp
  moreover have "calls w2 = calls w @ map (\<lambda>z. GaugeSet g (the (zone_current_temperature z))
                 (projr (build_attributes airtouch ac z)))
       (filter (\<lambda>z. zone_current_temperature z \<noteq> None) (z # zs))"
    using c1 c2 by simp
  ultimately show ?case by blast
qed


lemma report_aircon_wf:
  assumes "wf_aircon ac"
  shows "\<exists>w'. report_aircon (gauge_set g) airtouch i ac w = (None, w')
     \<and> calls w' = calls w @ expected_samples g airtouch ac"
proof -
  from assms obtain n where n: "ac_name ac = Some n"
    and zs: "list_all (reportable_zone ac) (zones ac)"
    by (auto simp: wf_aircon_def)
  from process_zones_wf [OF zs, of g airtouch
      "logging_info (''Telemetry update received for AC '' @ str_int i @ '' ('' @ n @ '').'') w"]
  show ?thesis
    using n by (simp add: report_aircon_def expected_samples_def logging_info_def)
qed





section \<open>An exception in one zone\<close>

lemma process_zones_append:
  "process_zones g airtouch ac (xs @ ys) w =
     (case process_zones g airtouch ac xs w of
        (Some e, w') \<Rightarrow> (Some e, w')
      | (None, w') \<Rightarrow> process_zones g airtouch ac ys w')"
  by (induction xs arbitrary: w) (auto split: prod.splits option.splits)

lemma build_attributes_zones_update:
  "build_attributes airtouch (ac\<lparr>zones := zs\<rparr>) z = build_attributes airtouch ac z"
  by (simp add: build_attributes_def aircon_attr_name_def Let_def
      cong: sum.case_cong option.case_cong)

lemma process_zone_zones_update:
  "process_zone g airtouch (ac\<lparr>zones := zs\<rparr>) z w = process_zone g airtouch ac z w"
  by (simp add: process_zone_def build_attributes_zones_update
      cong: sum.case_cong option.case_cong)

lemma process_zones_zones_update:
  "process_zones g airtouch (ac\<lparr>zones := zs\<rparr>) xs w = process_zones g airtouch ac xs w"
  by (induction xs arbitrary: w)
     (simp_all add: process_zone_zones_update split: prod.splits option.splits)

text \<open>
  Claim C3, as amended. The handler has no exception handler of its own. When the
  handler, run on the zones before a zone \<open>z\<close> only, returns normally and leaves the
  world \<open>w1\<close>, and processing \<open>z\<close> in \<open>w1\<close> raises \<open>e\<close> and leaves \<open>w2\<close>, then the
  handler raises \<open>e\<close> to its caller and leaves \<open>w2\<close>, whatever zones follow \<open>z\<close>: the
  samples of the zones before \<open>z\<close> are recorded, and no zone after \<open>z\<close> is processed.
  When the exception comes from building the attributes, \<open>z\<close> itself adds nothing.
\<close>

theorem zone_exception_propagates:
  assumes "getitem (air_conditioners airtouch) i = Inr ac"
    and "zones ac = pre @ z # post"
    and "report_aircon g airtouch i (ac\<lparr>zones := pre\<rparr>) w = (None, w1)"
    and "process_zone g airtouch ac z w1 = (Some e, w2)"
  shows "on_ac_status_updated g airtouch i w = (Some e, w2)
    \<and> (build_attributes airtouch ac z = Inl e \<longrightarrow> w2 = w1)"
proof -
  from assms(3) obtain n where n: "ac_name ac = Some n"
    by (auto simp: report_aircon_def split: option.splits)
  define w0 where
    "w0 = logging_info (''Telemetry update received for AC '' @ str_int i @ '' ('' @ n @ '').'') w"
  have pre: "process_zones g airtouch ac pre w0 = (None, w1)"
    using assms(3) n by (simp add: report_aircon_def w0_def process_zones_zones_update)
  have "process_zones g airtouch ac (pre @ z # post) w0 = (Some e, w2)"
    using pre assms(4) by (simp add: process_zones_append)
  then have "on_ac_status_updated g airtouch i w = (Some e, w2)"
    using assms(1,2) n by (simp add: on_ac_status_updated_def report_aircon_def w0_def)
  moreover have "build_attributes airtouch ac z = Inl e \<longrightarrow> w2 = w1"
    using assms(4) by (auto simp: process_zone_def split: option.splits)
  ultimately show ?thesis by simp
qed

lemmas ex_zone_defs = ex_zone_a_def ex_zone_b_def ex_zone_c_def ex_zone_bad_def
lemmas ex_defs = ex_airtouch_bad_def ex_aircon_bad_def ex_airtouch_def ex_aircon_def

lemma process_zone_ex_bad:
  "process_zone g ex_airtouch_bad ex_aircon_bad ex_zone_bad w = (Some AttributeError, w)"
  by (simp add: process_zone_def build_attributes_def enum_name_def Let_def ex_zone_defs)

lemma build_attributes_ex_bad:
  "build_attributes ex_airtouch_bad ex_aircon_bad ex_zone_bad = Inl AttributeError"
  by (simp add: build_attributes_def enum_name_def Let_def ex_zone_defs)

text \<open>
  The claim as stated fails: of three zones that all have a temperature, the second has
  no control method. The handler raises \<^verbatim>\<open>AttributeError\<close> and has recorded the sample
  of the first zone only.
\<close>

theorem zone_exception_counterexample:
  "fst (on_ac_status_updated (gauge_set 0) ex_airtouch_bad 0 empty_world) = Some AttributeError
   \<and> map (\<lambda>c. case c of GaugeSet j v a \<Rightarrow> v | _ \<Rightarrow> 0)
        (calls (snd (on_ac_status_updated (gauge_set 0) ex_airtouch_bad 0 empty_world))) = [21]
   \<and> map zone_current_temperature (zones ex_aircon_bad) = [Some 21, Some 20, Some 19]"
  by (simp add: on_ac_status_updated_def getitem_def report_aircon_def ex_defs ex_zone_defs
      process_zone_def build_attributes_def enum_name_def Let_def gauge_set_def do_call_def
      logging_info_def empty_world_def)

theorem zone_exception_propagates_witness:
  "getitem (air_conditioners ex_airtouch_bad) 0 = Inr ex_aircon_bad
   \<and> zones ex_aircon_bad = [ex_zone_a] @ ex_zone_bad # [ex_zone_c]
   \<and> fst (report_aircon (gauge_set 0) ex_airtouch_bad 0
            (ex_aircon_bad\<lparr>zones := [ex_zone_a]\<rparr>) empty_world) = None
   \<and> build_attributes ex_airtouch_bad ex_aircon_bad ex_zone_bad = Inl AttributeError
   \<and> on_ac_status_updated (gauge_set 0) ex_airtouch_bad 0 empty_world
       = (Some AttributeError,
          snd (report_aircon (gauge_set 0) ex_airtouch_bad 0
                 (ex_aircon_bad\<lparr>zones := [ex_zone_a]\<rparr>) empty_world))"
proof -
  define w1 where "w1 = snd (report_aircon (gauge_set 0) ex_airtouch_bad 0
                 (ex_aircon_bad\<lparr>zones := [ex_zone_a]\<rparr>) empty_world)"
  have h1: "getitem (air_conditioners ex_airtouch_bad) 0 = Inr ex_aircon_bad"
    by (simp add: getitem_def ex_airtouch_bad_def ex_airtouch_def)
  have h2: "zones ex_aircon_bad = [ex_zone_a] @ ex_zone_bad # [ex_zone_c]"
    by (simp add: ex_aircon_bad_def)
  have f: "fst (report_aircon (gauge_set 0) ex_airtouch_bad 0
            (ex_aircon_bad\<lparr>zones := [ex_zone_a]\<rparr>) empty_world) = None"
    by (simp add: report_aircon_def ex_defs ex_zone_defs process_zone_def
        build_attributes_def enum_name_def Let_def gauge_set_def do_call_def logging_info_def
        empty_world_def)
  have h3: "report_aircon (gauge_set 0) ex_airtouch_bad 0
            (ex_aircon_bad\<lparr>zones := [ex_zone_a]\<rparr>) empty_world = (None, w1)"
    using f unfolding w1_def by (metis prod.collapse)
  have h4: "process_zone (gauge_set 0) ex_airtouch_bad ex_aircon_bad ex_zone_bad w1
      = (Some AttributeError, w1)"
    by (rule process_zone_ex_bad)
  from zone_exception_propagates [OF h1 h2 h3 h4]
  have "on_ac_status_updated (gauge_set 0) ex_airtouch_bad 0 empty_world
      = (Some AttributeError, w1)"
    by simp
  then show ?thesis
    using h1 h2 f build_attributes_ex_bad unfolding w1_def by (intro conjI)
qed


section \<open>The lookup of the air conditioner\<close>

text \<open>
  Claim C10. The handler indexes the sequence of air conditioners with the identifier
  of the notification: a position \<open>0 \<le> i < n\<close> processes the air conditioner at
  that position, a negative index from \<open>-n\<close> on counts from the end, and any other
  identifier raises \<^verbatim>\<open>IndexError\<close> out of the handler with nothing logged or recorded.
  The air conditioner processed for every position carries that position as its
  identifier exactly when every identifier equals its position.
\<close>

theorem handler_positional_lookup:
  "(0 \<le> i \<and> i < int (length (air_conditioners airtouch)) \<longrightarrow>
      on_ac_status_updated g airtouch i w
        = report_aircon g airtouch i (air_conditioners airtouch ! nat i) w)
   \<and> (i < 0 \<and> - int (length (air_conditioners airtouch)) \<le> i \<longrightarrow>
      on_ac_status_updated g airtouch i w
        = report_aircon g airtouch i
            (air_conditioners airtouch ! nat (int (length (air_conditioners airtouch)) + i)) w)
   \<and> (i < - int (length (air_conditioners airtouch))
        \<or> int (length (air_conditioners airtouch)) \<le> i \<longrightarrow>
      on_ac_status_updated g airtouch i w = (Some IndexError, w))
   \<and> ((\<forall>k < length (air_conditioners airtouch).
          \<exists>ac. getitem (air_conditioners airtouch) (int k) = Inr ac \<and> ac_id ac = int k)
        \<longleftrightarrow> (\<forall>k < length (air_conditioners airtouch).
               ac_id (air_conditioners airtouch ! k) = int k))"
  by (auto simp: on_ac_status_updated_def getitem_def)

theorem handler_positional_lookup_witness:
  "int (length (air_conditioners ex_airtouch_shifted)) \<le> 1
   \<and> map ac_id (air_conditioners ex_airtouch_shifted) = [1]
   \<and> on_ac_status_updated (gauge_set 0) ex_airtouch_shifted 1 empty_world
       = (Some IndexError, empty_world)"
proof -
  have h: "int (length (air_conditioners ex_airtouch_shifted)) \<le> 1"
    by (simp add: ex_airtouch_shifted_def)
  have ids: "map ac_id (air_conditioners ex_airtouch_shifted) = [1]"
    by (simp add: ex_airtouch_shifted_def)
  from handler_positional_lookup [of 1 ex_airtouch_shifted "gauge_set 0" empty_world] h
  have "on_ac_status_updated (gauge_set 0) ex_airtouch_shifted 1 empty_world
       = (Some IndexError, empty_world)"
    by blast
  with h ids show ?thesis by (intro conjI)
qed

section \<open>The calls of a run\<close>

lemma fst_process_zone_calls:
  "\<exists>ext. calls (snd (process_zone (gauge_set i) airtouch ac z w)) = calls w @ ext
     \<and> list_all (\<lambda>c. made_by i c \<and> \<not> is_create_gauge c) ext"
  by (auto simp: process_zone_def logging_info_def gauge_set_def do_call_def
      split: option.splits sum.splits)

lemma process_zones_calls:
  "\<exists>ext. calls (snd (process_zones (gauge_set i) airtouch ac zs w)) = calls w @ ext
     \<and> list_all (\<lambda>c. made_by i c \<and> \<not> is_create_gauge c) ext"
proof (induction zs arbitrary: w)
  case Nil
  then show ?case by simp
next
  case (Cons z zs)
  obtain r w1 where one: "process_zone (gauge_set i) airtouch ac z w = (r, w1)"
    by (cases "process_zone (gauge_set i) airtouch ac z w")
  from fst_process_zone_calls [of i airtouch ac z w] one obtain e1 where
    e1: "calls w1 = calls w @ e1" "list_all (\<lambda>c. made_by i c \<and> \<not> is_create_gauge c) e1"
    by auto
  show ?case
  proof (cases r)
    case None
    from Cons.IH [of w1] obtain e2 where
      e2: "calls (snd (process_zones (gauge_set i) airtouch ac zs w1)) = calls w1 @ e2"
        "list_all (\<lambda>c. made_by i c \<and> \<not> is_create_gauge c) e2"
      by blast
    have "calls (snd (process_zones (gauge_set i) airtouch ac (z # zs) w))
        = calls w @ (e1 @ e2)"
      using one None e1 e2 by simp
    moreover have "list_all (\<lambda>c. made_by i c \<and> \<not> is_create_gauge c) (e1 @ e2)"
      using e1 e2 by simp
    ultimately show ?thesis by blast
  next
    case (Some e)
    then have "calls (snd (process_zones (gauge_set i) airtouch ac (z # zs) w)) = calls w @ e1"
      using one e1 by simp
    with e1 show ?thesis by blast
  qed
qed

lemma handler_calls:
  "\<exists>ext. calls (snd (on_ac_status_updated (gauge_set i) airtouch k w)) = calls w @ ext
     \<and> list_all (\<lambda>c. made_by i c \<and> \<not> is_create_gauge c) ext"
proof (cases "getitem (air_conditioners airtouch) k")
  case (Inl e)
  then show ?thesis by (simp add: on_ac_status_updated_def)
next
  case (Inr ac)
  show ?thesis
  proof (cases "ac_name ac")
    case None
    with Inr show ?thesis by (simp add: on_ac_status_updated_def report_aircon_def)
  next
    case (Some n)
    from process_zones_calls [of i airtouch ac "zones ac"
        "logging_info (''Telemetry update received for AC '' @ str_int k @ '' ('' @ n @ '').'') w"]
    show ?thesis
      using Inr Some by (simp add: on_ac_status_updated_def report_aircon_def logging_info_def)
  qed
qed

lemma subscribe_all_calls:
  "\<exists>ext. calls (snd (subscribe_all i airtouch k acs w)) = calls w @ ext
     \<and> list_all (\<lambda>c. made_by i c \<and> \<not> is_create_gauge c) ext"
proof (induction acs arbitrary: k w)
  case Nil
  then show ?case by simp
next
  case (Cons ac acs)
  define w0 where "w0 = do_call (Subscribe i k) w"
  obtain r w1 where one: "on_ac_status_updated (gauge_set i) airtouch (ac_id ac) w0 = (r, w1)"
    by (cases "on_ac_status_updated (gauge_set i) airtouch (ac_id ac) w0")
  from handler_calls [of i airtouch "ac_id ac" w0] one obtain e1 where
    e1: "calls w1 = calls w0 @ e1" "list_all (\<lambda>c. made_by i c \<and> \<not> is_create_gauge c) e1"
    by auto
  have c0: "calls w0 = calls w @ [Subscribe i k]"
    by (simp add: w0_def do_call_def)
  show ?case
  proof (cases r)
    case None
    from Cons.IH [of "Suc k" w1] obtain e2 where
      e2: "calls (snd (subscribe_all i airtouch (Suc k) acs w1)) = calls w1 @ e2"
        "list_all (\<lambda>c. made_by i c \<and> \<not> is_create_gauge c) e2"
      by blast
    have "calls (snd (subscribe_all i airtouch k (ac # acs) w))
        = calls w @ (Subscribe i k # e1 @ e2)"
      using one None e1 e2 c0 by (simp add: w0_def)
    moreover have "list_all (\<lambda>c. made_by i c \<and> \<not> is_create_gauge c) (Subscribe i k # e1 @ e2)"
      using e1 e2 by simp
    ultimately show ?thesis by blast
  next
    case (Some e)
    have "calls (snd (subscribe_all i airtouch k (ac # acs) w)) = calls w @ (Subscribe i k # e1)"
      using one Some e1 c0 by (simp add: w0_def)
    moreover have "list_all (\<lambda>c. made_by i c \<and> \<not> is_create_gauge c) (Subscribe i k # e1)"
      using e1 by simp
    ultimately show ?thesis by blast
  qed
qed

lemma monitor_resume_success:
  "monitor_airtouch_resume i airtouch (InitReturned True) w =
     (case subscribe_all i airtouch 0 (air_conditioners airtouch)
             (do_call (CreateGauge i ''airtouch.zone.temperature'' ''C'')
                (msg (''Continuously monitoring '' @ [CHR 0x27] @ airtouch_id airtouch
                          @ [CHR 0x27] @ ''...'') w)) of
        (Some e, w') \<Rightarrow> (Raise e, w')
      | (None, w') \<Rightarrow> (Park, w'))"
  by (simp add: monitor_airtouch_resume_def Let_def)

lemma monitor_resume_calls:
  "\<exists>ext. calls (snd (monitor_airtouch_resume i airtouch r w)) = calls w @ ext
     \<and> list_all (made_by i) ext"
proof (cases r)
  case (InitRaised e)
  then show ?thesis by (simp add: monitor_airtouch_resume_def)
next
  case (InitReturned success)
  show ?thesis
  proof (cases success)
    case False
    with InitReturned show ?thesis by (simp add: monitor_airtouch_resume_def msg_def)
  next
    case True
    define w0 where "w0 = do_call (CreateGauge i ''airtouch.zone.temperature'' ''C'')
       (msg (''Continuously monitoring '' @ [CHR 0x27] @ airtouch_id airtouch
                          @ [CHR 0x27] @ ''...'') w)"
    obtain r' w1 where s:
      "subscribe_all i airtouch 0 (air_conditioners airtouch) w0 = (r', w1)"
      by (cases "subscribe_all i airtouch 0 (air_conditioners airtouch) w0")
    from subscribe_all_calls [of i airtouch 0 "air_conditioners airtouch" w0] s obtain ext where
      e: "calls w1 = calls w0 @ ext"
        "list_all (\<lambda>c. made_by i c \<and> \<not> is_create_gauge c) ext"
      by auto
    have c0: "calls w0 = calls w @ [CreateGauge i ''airtouch.zone.temperature'' ''C'']"
      by (simp add: w0_def do_call_def msg_def)
    have r_eq: "r = InitReturned True"
      using InitReturned True by simp
    have "snd (monitor_airtouch_resume i airtouch r w) = w1"
      unfolding r_eq monitor_resume_success w0_def [symmetric] s
      by (cases r') simp_all
    then have "calls (snd (monitor_airtouch_resume i airtouch r w))
        = calls w @ (CreateGauge i ''airtouch.zone.temperature'' ''C'' # ext)"
      using e c0 by simp
    moreover have "list_all (made_by i) (CreateGauge i ''airtouch.zone.temperature'' ''C'' # ext)"
      using e(2) by (simp add: list_all_iff)
    ultimately show ?thesis by blast
  qed
qed

lemma step_exited: "process s \<noteq> Running \<Longrightarrow> step ev s = s"
  by (simp add: step_def)

lemma fold_step_exited: "process s \<noteq> Running \<Longrightarrow> fold step evs s = s"
  by (induction evs) (simp_all add: step_exited)

lemma made_by_monitor_call: "made_by i c \<Longrightarrow> is_monitor_call c"
  by (cases c) simp_all

declare resume_all.simps(2) [simp del]

text \<open>
  One answer of an iteration: it is skipped, or it resumes its task, which leaves the
  state \<open>Initializing\<close> and adds its exception to the collected ones when it raises.
\<close>

lemma resume_all_step:
  obtains (skip) "\<not> (i < length (tasks s) \<and> tasks s ! i = Initializing)"
      "resume_all ((i, r) # answers) errors s = resume_all answers errors s"
    | (resumed) out w X new where "i < length (tasks s)" "tasks s ! i = Initializing"
      "monitor_airtouch_resume i (handles s ! i) r (sys_world s) = (out, w)"
      "X \<noteq> Initializing" "new = [] \<or> (\<exists>e. new = [e] \<and> X = Failed e)"
      "resume_all ((i, r) # answers) errors s
         = resume_all answers (errors @ new) (s\<lparr>sys_world := w, tasks := (tasks s)[i := X]\<rparr>)"
proof (cases "i < length (tasks s) \<and> tasks s ! i = Initializing")
  case False
  have "resume_all ((i, r) # answers) errors s = resume_all answers errors s"
    by (simp only: resume_all.simps if_not_P [OF False])
  with False show ?thesis by (rule skip)
next
  case True
  obtain out w where m: "monitor_airtouch_resume i (handles s ! i) r (sys_world s) = (out, w)"
    by (cases "monitor_airtouch_resume i (handles s ! i) r (sys_world s)")
  show ?thesis
  proof (cases out)
    case Return
    have "resume_all ((i, r) # answers) errors s
        = resume_all answers (errors @ []) (s\<lparr>sys_world := w, tasks := (tasks s)[i := Returned]\<rparr>)"
      using True m Return by (simp add: resume_all.simps)
    with True m show ?thesis by (intro resumed [of out w Returned "[]"]) simp_all
  next
    case Park
    have "resume_all ((i, r) # answers) errors s
        = resume_all answers (errors @ []) (s\<lparr>sys_world := w, tasks := (tasks s)[i := Active]\<rparr>)"
      using True m Park by (simp add: resume_all.simps)
    with True m show ?thesis by (intro resumed [of out w Active "[]"]) simp_all
  next
    case (Raise e)
    have "resume_all ((i, r) # answers) errors s
        = resume_all answers (errors @ [e]) (s\<lparr>sys_world := w, tasks := (tasks s)[i := Failed e]\<rparr>)"
      using True m Raise by (simp add: resume_all.simps)
    with True m show ?thesis by (intro resumed [of out w "Failed e" "[e]"]) simp_all
  qed
qed

lemma resume_all_frame:
  "process (snd (resume_all answers errors s)) = process s
   \<and> handles (snd (resume_all answers errors s)) = handles s
   \<and> length (tasks (snd (resume_all answers errors s))) = length (tasks s)"
proof (induction answers arbitrary: errors s)
  case Nil
  then show ?case by simp
next
  case (Cons a answers)
  obtain i r where a: "a = (i, r)" by (cases a)
  have "process (snd (resume_all ((i, r) # answers) errors s)) = process s
   \<and> handles (snd (resume_all ((i, r) # answers) errors s)) = handles s
   \<and> length (tasks (snd (resume_all ((i, r) # answers) errors s))) = length (tasks s)"
  proof (cases rule: resume_all_step [of i s r answers errors])
    case skip
    show ?thesis
      unfolding skip(2) by (rule Cons.IH)
  next
    case (resumed out w X new)
    show ?thesis
      unfolding resumed(6)
      using Cons.IH [of "errors @ new" "s\<lparr>sys_world := w, tasks := (tasks s)[i := X]\<rparr>"]
      by simp
  qed
  then show ?case unfolding a .
qed





lemma resume_all_calls:
  "\<exists>ext. calls (sys_world (snd (resume_all answers errors s))) = calls (sys_world s) @ ext
     \<and> list_all is_monitor_call ext"
proof (induction answers arbitrary: errors s)
  case Nil
  then show ?case by simp
next
  case (Cons a answers)
  obtain i r where a: "a = (i, r)" by (cases a)
  have "\<exists>ext. calls (sys_world (snd (resume_all ((i, r) # answers) errors s)))
           = calls (sys_world s) @ ext
     \<and> list_all is_monitor_call ext"
  proof (cases rule: resume_all_step [of i s r answers errors])
    case skip
    show ?thesis
      unfolding skip(2) by (rule Cons.IH)
  next
    case (resumed out w X new)
    let ?s1 = "s\<lparr>sys_world := w, tasks := (tasks s)[i := X]\<rparr>"
    from monitor_resume_calls [of i "handles s ! i" r "sys_world s"] resumed(3) obtain e1 where
      e1: "calls w = calls (sys_world s) @ e1" "list_all (made_by i) e1"
      by auto
    from e1(2) have m1: "list_all is_monitor_call e1"
      by (auto simp: list_all_iff intro: made_by_monitor_call)
    from Cons.IH [of "errors @ new" ?s1] obtain e2 where
      e2: "calls (sys_world (snd (resume_all answers (errors @ new) ?s1))) = calls w @ e2"
        "list_all is_monitor_call e2"
      by auto
    have "calls (sys_world (snd (resume_all answers (errors @ new) ?s1)))
        = calls (sys_world s) @ (e1 @ e2)"
      using e1 e2 by simp
    moreover have "list_all is_monitor_call (e1 @ e2)"
      using m1 e2 by simp
    ultimately show ?thesis
      unfolding resumed(6) by blast
  qed
  then show ?case unfolding a .
qed

lemma settle_group_calls: "calls (sys_world (settle_group errors s)) = calls (sys_world s)"
  by (simp add: settle_group_def unexpected_error_def logging_exception_def)

lemma settle_group_process:
  "process (settle_group errors s) = Exited 0 \<or> process (settle_group errors s) = process s"
  by (simp add: settle_group_def unexpected_error_def)

lemma step_batch:
  assumes "process s = Running"
  shows "step (InitBatch answers) s
           = settle_group (fst (resume_all answers [] s)) (snd (resume_all answers [] s))"
    and "step (InitDone i r) s = step (InitBatch [(i, r)]) s"
  using assms by (simp_all add: step_def split: prod.splits)

lemma step_calls:
  "\<exists>ext. calls (sys_world (step ev s)) = calls (sys_world s) @ ext
     \<and> list_all is_monitor_call ext"
proof (cases "process s = Running")
  case False
  then show ?thesis by (simp add: step_exited)
next
  case True
  show ?thesis
  proof (cases ev)
    case Interrupt
    with True show ?thesis by (simp add: step_def msg_def)
  next
    case (InitDone i r)
    from resume_all_calls [of "[(i, r)]" "[]" s] show ?thesis
      unfolding InitDone step_batch(2) [OF True] step_batch(1) [OF True]
      by (simp only: settle_group_calls)
  next
    case (InitBatch answers)
    from resume_all_calls [of answers "[]" s] show ?thesis
      unfolding InitBatch step_batch(1) [OF True]
      by (simp only: settle_group_calls)
  qed
qed

lemma fold_step_calls:
  "\<exists>ext. calls (sys_world (fold step evs s)) = calls (sys_world s) @ ext
     \<and> list_all is_monitor_call ext"
proof (induction evs arbitrary: s)
  case Nil
  then show ?case by simp
next
  case (Cons ev evs)
  from step_calls [of ev s] obtain e1 where
    e1: "calls (sys_world (step ev s)) = calls (sys_world s) @ e1" "list_all is_monitor_call e1"
    by blast
  from Cons.IH [of "step ev s"] obtain e2 where
    e2: "calls (sys_world (fold step evs (step ev s))) = calls (sys_world (step ev s)) @ e2"
      "list_all is_monitor_call e2"
    by blast
  have "calls (sys_world (fold step (ev # evs) s)) = calls (sys_world s) @ (e1 @ e2)"
    using e1 e2 by simp
  moreover have "list_all is_monitor_call (e1 @ e2)"
    using e1 e2 by simp
  ultimately show ?case by blast
qed

section \<open>Start-up\<close>

lemma calls_fold_msg: "calls (fold (\<lambda>a. msg (f a)) xs w) = calls w"
  by (induction xs arbitrary: w) (simp_all add: msg_def)

lemma calls_fold_start: "calls (fold monitor_airtouch_start xs w) = calls w @ map Init xs"
  by (induction xs arbitrary: w) (simp_all add: monitor_airtouch_start_def do_call_def)

lemma setup_cases:
  "(NEW_RELIC_KEY e = None \<or> NEW_RELIC_KEY e = Some []) \<and>
     setup_opentelemetry (NEW_RELIC_KEY e) (exporter_error e) empty_world
       = (Inl ValueError, empty_world)
   \<or> (\<exists>k err. NEW_RELIC_KEY e = Some k \<and> k \<noteq> [] \<and> exporter_error e = Some err \<and>
        setup_opentelemetry (NEW_RELIC_KEY e) (exporter_error e) empty_world
          = (Inl err, \<lparr>logged = [],
               calls = [OTLPMetricExporter ''https://otlp.nr-data.net:4317/v1/metrics'' k]\<rparr>))
   \<or> (\<exists>k. NEW_RELIC_KEY e = Some k \<and> k \<noteq> [] \<and> exporter_error e = None \<and>
        setup_opentelemetry (NEW_RELIC_KEY e) (exporter_error e) empty_world
          = (Inr (Meter ''pyairtouch.monitor''), \<lparr>logged = [],
               calls = [OTLPMetricExporter ''https://otlp.nr-data.net:4317/v1/metrics'' k,
                        PeriodicExportingMetricReader, MeterProvider,
                        SetMeterProvider, GetMeter ''pyairtouch.monitor'']\<rparr>))"
  by (cases "NEW_RELIC_KEY e"; cases "exporter_error e")
     (auto simp: setup_opentelemetry_def Let_def do_call_def empty_world_def)

lemma start_no_key:
  assumes "NEW_RELIC_KEY e = None \<or> NEW_RELIC_KEY e = Some []"
  shows "start e =
     \<lparr>sys_world = \<lparr>logged = [LogException
          ''An unexpected error occurred and the program has to stop.'' ValueError],
        calls = []\<rparr>,
      handles = [], tasks = [], process = Exited 0\<rparr>"
  using assms setup_cases [of e]
  by (auto simp: start_def unexpected_error_def logging_exception_def empty_world_def)

lemma start_exporter_error:
  assumes "NEW_RELIC_KEY e = Some k" and "k \<noteq> []" and "exporter_error e = Some err"
  shows "start e =
     \<lparr>sys_world = \<lparr>logged = [LogException
          ''An unexpected error occurred and the program has to stop.'' err],
        calls = [OTLPMetricExporter ''https://otlp.nr-data.net:4317/v1/metrics'' k]\<rparr>,
      handles = [], tasks = [], process = Exited 0\<rparr>"
  using assms setup_cases [of e]
  by (auto simp: start_def unexpected_error_def logging_exception_def)

lemma start_ok:
  assumes "NEW_RELIC_KEY e = Some k" and "k \<noteq> []" and "exporter_error e = None"
  shows "calls (sys_world (start e)) =
      [OTLPMetricExporter ''https://otlp.nr-data.net:4317/v1/metrics'' k,
       PeriodicExportingMetricReader, MeterProvider,
       SetMeterProvider, GetMeter ''pyairtouch.monitor'', Discover (airtouch_host e)]
      @ map Init [0..<length (discovered_airtouches e)]
    \<and> handles (start e) = discovered_airtouches e
    \<and> tasks (start e) = replicate (length (discovered_airtouches e)) Initializing
    \<and> process (start e) = (if discovered_airtouches e = [] then Exited 0 else Running)
    \<and> (discovered_airtouches e = [] \<longrightarrow>
         last (logged (sys_world (start e))) = Stderr ''No AirTouch systems were discovered.'')"
proof -
  from assms setup_cases [of e] have s:
    "setup_opentelemetry (NEW_RELIC_KEY e) (exporter_error e) empty_world
          = (Inr (Meter ''pyairtouch.monitor''), \<lparr>logged = [],
               calls = [OTLPMetricExporter ''https://otlp.nr-data.net:4317/v1/metrics'' k,
                        PeriodicExportingMetricReader, MeterProvider,
                        SetMeterProvider, GetMeter ''pyairtouch.monitor'']\<rparr>)"
    by auto
  show ?thesis
    unfolding start_def s
    by (cases "airtouch_host e")
       (simp_all add: Let_def calls_fold_start calls_fold_msg msg_def do_call_def)
qed

text \<open>
  Claim C6. When the licence key is missing (unset or empty) the process ends at once,
  whatever the controllers or the operator would do next: the \<^verbatim>\<open>ValueError\<close> is logged, no
  collaborator has been called, and so discovery has not. In every run in which discovery
  is called, \<^verbatim>\<open>setup_opentelemetry\<close> has returned the meter, and the first six calls
  of the run are the five that construct the pipeline followed by the discovery.
\<close>

theorem discovery_only_after_pipeline:
  "(NEW_RELIC_KEY e = None \<or> NEW_RELIC_KEY e = Some [] \<longrightarrow>
      run e evs =
        \<lparr>sys_world = \<lparr>logged = [LogException
             ''An unexpected error occurred and the program has to stop.'' ValueError],
           calls = []\<rparr>,
         handles = [], tasks = [], process = Exited 0\<rparr>)
   \<and> (Discover h \<in> set (calls (sys_world (run e evs))) \<longrightarrow>
        (\<exists>k. NEW_RELIC_KEY e = Some k \<and> k \<noteq> []
           \<and> fst (setup_opentelemetry (NEW_RELIC_KEY e) (exporter_error e) empty_world)
               = Inr (Meter ''pyairtouch.monitor'')
           \<and> take 6 (calls (sys_world (run e evs)))
               = [OTLPMetricExporter ''https://otlp.nr-data.net:4317/v1/metrics'' k,
                  PeriodicExportingMetricReader, MeterProvider,
                  SetMeterProvider, GetMeter ''pyairtouch.monitor'',
                  Discover (airtouch_host e)]))"
proof (intro conjI impI)
  assume "NEW_RELIC_KEY e = None \<or> NEW_RELIC_KEY e = Some []"
  from start_no_key [OF this] show "run e evs =
        \<lparr>sys_world = \<lparr>logged = [LogException
             ''An unexpected error occurred and the program has to stop.'' ValueError],
           calls = []\<rparr>,
         handles = [], tasks = [], process = Exited 0\<rparr>"
    by (simp add: run_def fold_step_exited)
next
  assume d: "Discover h \<in> set (calls (sys_world (run e evs)))"
  from setup_cases [of e] consider
    (nokey) "NEW_RELIC_KEY e = None \<or> NEW_RELIC_KEY e = Some []"
    | (sdk) k err where "NEW_RELIC_KEY e = Some k" "k \<noteq> []" "exporter_error e = Some err"
    | (ok) k where "NEW_RELIC_KEY e = Some k" "k \<noteq> []" "exporter_error e = None"
      "setup_opentelemetry (NEW_RELIC_KEY e) (exporter_error e) empty_world
          = (Inr (Meter ''pyairtouch.monitor''), \<lparr>logged = [],
               calls = [OTLPMetricExporter ''https://otlp.nr-data.net:4317/v1/metrics'' k,
                        PeriodicExportingMetricReader, MeterProvider,
                        SetMeterProvider, GetMeter ''pyairtouch.monitor'']\<rparr>)"
    by blast
  then show "\<exists>k. NEW_RELIC_KEY e = Some k \<and> k \<noteq> []
           \<and> fst (setup_opentelemetry (NEW_RELIC_KEY e) (exporter_error e) empty_world)
               = Inr (Meter ''pyairtouch.monitor'')
           \<and> take 6 (calls (sys_world (run e evs)))
               = [OTLPMetricExporter ''https://otlp.nr-data.net:4317/v1/metrics'' k,
                  PeriodicExportingMetricReader, MeterProvider,
                  SetMeterProvider, GetMeter ''pyairtouch.monitor'',
                  Discover (airtouch_host e)]"
  proof cases
    case nokey
    from start_no_key [OF this] have "calls (sys_world (run e evs)) = []"
      by (simp add: run_def fold_step_exited)
    with d show ?thesis by simp
  next
    case sdk
    from start_exporter_error [OF sdk] have
      "calls (sys_world (run e evs))
         = [OTLPMetricExporter ''https://otlp.nr-data.net:4317/v1/metrics'' k]"
      by (simp add: run_def fold_step_exited)
    with d show ?thesis by simp
  next
    case ok
    from fold_step_calls [of evs "start e"] obtain ext where
      "calls (sys_world (run e evs)) = calls (sys_world (start e)) @ ext"
      by (auto simp: run_def)
    with start_ok [OF ok(1,2,3)] have
      "take 6 (calls (sys_world (run e evs)))
               = [OTLPMetricExporter ''https://otlp.nr-data.net:4317/v1/metrics'' k,
                  PeriodicExportingMetricReader, MeterProvider,
                  SetMeterProvider, GetMeter ''pyairtouch.monitor'',
                  Discover (airtouch_host e)]"
      by simp
    with ok show ?thesis by simp
  qed
qed

theorem discovery_only_after_pipeline_witness:
  "NEW_RELIC_KEY (ex_env\<lparr>NEW_RELIC_KEY := None\<rparr>) = None
   \<and> run (ex_env\<lparr>NEW_RELIC_KEY := None\<rparr>) [InitDone 0 (InitReturned True), Interrupt] =
        \<lparr>sys_world = \<lparr>logged = [LogException
             ''An unexpected error occurred and the program has to stop.'' ValueError],
           calls = []\<rparr>,
         handles = [], tasks = [], process = Exited 0\<rparr>
   \<and> Discover None \<in> set (calls (sys_world (run ex_env [])))
   \<and> take 6 (calls (sys_world (run ex_env [])))
       = [OTLPMetricExporter ''https://otlp.nr-data.net:4317/v1/metrics'' ''licence'',
          PeriodicExportingMetricReader, MeterProvider,
          SetMeterProvider, GetMeter ''pyairtouch.monitor'', Discover None]"
proof -
  have h1: "NEW_RELIC_KEY (ex_env\<lparr>NEW_RELIC_KEY := None\<rparr>) = None"
    by simp
  have r1: "run (ex_env\<lparr>NEW_RELIC_KEY := None\<rparr>) [InitDone 0 (InitReturned True), Interrupt] =
        \<lparr>sys_world = \<lparr>logged = [LogException
             ''An unexpected error occurred and the program has to stop.'' ValueError],
           calls = []\<rparr>,
         handles = [], tasks = [], process = Exited 0\<rparr>"
    using discovery_only_after_pipeline
      [of "ex_env\<lparr>NEW_RELIC_KEY := None\<rparr>" "[InitDone 0 (InitReturned True), Interrupt]"] h1
    by blast
  have h2: "Discover None \<in> set (calls (sys_world (run ex_env [])))"
    by (simp add: run_def start_def ex_env_def setup_opentelemetry_def Let_def do_call_def
        msg_def empty_world_def monitor_airtouch_start_def)
  from discovery_only_after_pipeline [of ex_env "[]" None] h2
  have "take 6 (calls (sys_world (run ex_env [])))
       = [OTLPMetricExporter ''https://otlp.nr-data.net:4317/v1/metrics'' ''licence'',
          PeriodicExportingMetricReader, MeterProvider,
          SetMeterProvider, GetMeter ''pyairtouch.monitor'', Discover None]"
    by (auto simp: ex_env_def)
  with h1 r1 h2 show ?thesis by (intro conjI)
qed

section \<open>The task group and the exit status\<close>

lemma not_all_returned:
  assumes "i < length ts" and "x \<noteq> Returned"
  shows "\<not> list_all (\<lambda>t. t = Returned) (ts[i := x])"
proof -
  have "x \<in> set (ts[i := x])"
    using assms(1) by (rule set_update_memI)
  with assms(2) show ?thesis
    by (auto simp: list_all_iff)
qed

lemma resume_one:
  assumes "i < length (tasks s)" and "tasks s ! i = Initializing"
    and "monitor_airtouch_resume i (handles s ! i) r (sys_world s) = (out, w)"
  shows "resume_all [(i, r)] [] s =
     (case out of
        Park \<Rightarrow> ([], s\<lparr>sys_world := w, tasks := (tasks s)[i := Active]\<rparr>)
      | Return \<Rightarrow> ([], s\<lparr>sys_world := w, tasks := (tasks s)[i := Returned]\<rparr>)
      | Raise e \<Rightarrow> ([e], s\<lparr>sys_world := w, tasks := (tasks s)[i := Failed e]\<rparr>))"
  using assms by (cases out) (simp_all add: resume_all.simps)

lemma step_init:
  assumes "process s = Running" and "i < length (tasks s)" and "tasks s ! i = Initializing"
    and "monitor_airtouch_resume i (handles s ! i) r (sys_world s) = (out, w)"
  shows "step (InitDone i r) s =
     (case out of
        Park \<Rightarrow> s\<lparr>sys_world := w, tasks := (tasks s)[i := Active]\<rparr>
      | Return \<Rightarrow>
          s\<lparr>sys_world := w, tasks := (tasks s)[i := Returned],
            process := (if list_all (\<lambda>t. t = Returned) ((tasks s)[i := Returned])
                        then Exited 0 else Running)\<rparr>
      | Raise e \<Rightarrow>
          unexpected_error (ExceptionGroup [e])
            (s\<lparr>sys_world := w, tasks := cancel_pending ((tasks s)[i := Failed e])\<rparr>))"
proof (cases out)
  case Park
  from not_all_returned [OF assms(2), of Active]
  have "\<not> list_all (\<lambda>t. t = Returned) ((tasks s)[i := Active])" by simp
  with assms(1) Park show ?thesis
    by (simp add: step_def resume_one [OF assms(2,3,4)] settle_group_def)
next
  case Return
  have "step (InitDone i r) s
      = settle_group [] (s\<lparr>sys_world := w, tasks := (tasks s)[i := Returned]\<rparr>)"
    using assms(1) Return by (simp add: step_def resume_one [OF assms(2,3,4)])
  also have "\<dots> = s\<lparr>sys_world := w, tasks := (tasks s)[i := Returned],
            process := (if list_all (\<lambda>t. t = Returned) ((tasks s)[i := Returned])
                        then Exited 0 else Running)\<rparr>"
    using assms(1) by (cases s) (simp add: settle_group_def)
  finally show ?thesis
    using Return by simp
next
  case (Raise e)
  with assms(1) show ?thesis
    by (simp add: step_def resume_one [OF assms(2,3,4)] settle_group_def)
qed

lemma step_process:
  assumes "process s = Running \<or> process s = Exited 0"
  shows "process (step ev s) = Running \<or> process (step ev s) = Exited 0"
proof (cases "process s = Running")
  case False
  with assms show ?thesis by (simp add: step_exited)
next
  case True
  show ?thesis
  proof (cases ev)
    case Interrupt
    with True show ?thesis by (simp add: step_def)
  next
    case (InitDone i r)
    from settle_group_process [of "fst (resume_all [(i, r)] [] s)" "snd (resume_all [(i, r)] [] s)"]
      resume_all_frame [of "[(i, r)]" "[]" s] True
    show ?thesis
      unfolding InitDone step_batch(2) [OF True] step_batch(1) [OF True] by auto
  next
    case (InitBatch answers)
    from settle_group_process [of "fst (resume_all answers [] s)" "snd (resume_all answers [] s)"]
      resume_all_frame [of answers "[]" s] True
    show ?thesis
      unfolding InitBatch step_batch(1) [OF True] by auto
  qed
qed

lemma start_process: "process (start e) = Running \<or> process (start e) = Exited 0"
  using setup_cases [of e] start_no_key [of e] start_exporter_error [of e] start_ok [of e]
  by (elim disjE exE conjE) simp_all

lemma fold_step_process:
  "process s = Running \<or> process s = Exited 0 \<Longrightarrow>
   process (fold step evs s) = Running \<or> process (fold step evs s) = Exited 0"
  by (induction evs arbitrary: s) (simp_all add: step_process)

lemma run_process: "process (run e evs) = Running \<or> process (run e evs) = Exited 0"
  unfolding run_def by (rule fold_step_process [OF start_process])



lemma step_init_raised:
  assumes "process s = Running" and "i < length (tasks s)" and "tasks s ! i = Initializing"
  shows "tasks (step (InitDone i (InitRaised e)) s) = cancel_pending ((tasks s)[i := Failed e])
     \<and> process (step (InitDone i (InitRaised e)) s) = Exited 0"
proof -
  have "monitor_airtouch_resume i (handles s ! i) (InitRaised e) (sys_world s)
      = (Raise e, sys_world s)"
    by (simp add: monitor_airtouch_resume_def)
  from step_init [OF assms this] show ?thesis
    by (simp add: unexpected_error_def)
qed

text \<open>
  Claim C7. When the \<^verbatim>\<open>init\<close> of controller \<open>i\<close> returns false, its monitor writes
  one error message that names the controller and its host, makes no further call to a
  collaborator (so no second \<^verbatim>\<open>init\<close>), and returns: its task is \<open>Returned\<close>, every other
  task is in the state it was in, and the process keeps running as long as another task
  has not returned. A later answer for the same controller changes nothing.
\<close>

theorem init_failure_ends_only_its_task:
  assumes "process s = Running" and "i < length (tasks s)" and "tasks s ! i = Initializing"
  shows "logged (sys_world (step (InitDone i (InitReturned False)) s))
           = logged (sys_world s)
             @ [Stderr (''Error: '' @ airtouch_name (handles s ! i) @ '' (''
                        @ host (handles s ! i) @ '')'' @ '' initialisation failed.'')]
     \<and> calls (sys_world (step (InitDone i (InitReturned False)) s)) = calls (sys_world s)
     \<and> tasks (step (InitDone i (InitReturned False)) s) = (tasks s)[i := Returned]
     \<and> handles (step (InitDone i (InitReturned False)) s) = handles s
     \<and> (\<forall>j. j \<noteq> i \<longrightarrow> tasks (step (InitDone i (InitReturned False)) s) ! j = tasks s ! j)
     \<and> ((\<exists>j < length (tasks s). j \<noteq> i \<and> tasks s ! j \<noteq> Returned) \<longrightarrow>
           process (step (InitDone i (InitReturned False)) s) = Running)
     \<and> step (InitDone i r) (step (InitDone i (InitReturned False)) s)
         = step (InitDone i (InitReturned False)) s"
proof -
  define s' where "s' = step (InitDone i (InitReturned False)) s"
  have m: "monitor_airtouch_resume i (handles s ! i) (InitReturned False) (sys_world s)
      = (Return, msg (''Error: '' @ airtouch_id (handles s ! i) @ '' initialisation failed.'')
                   (sys_world s))"
    by (simp add: monitor_airtouch_resume_def)
  have s': "s' = s\<lparr>sys_world := msg (''Error: '' @ airtouch_id (handles s ! i)
                        @ '' initialisation failed.'') (sys_world s),
            tasks := (tasks s)[i := Returned],
            process := (if list_all (\<lambda>t. t = Returned) ((tasks s)[i := Returned])
                        then Exited 0 else Running)\<rparr>"
    unfolding s'_def step_init [OF assms m] by simp
  have l: "logged (sys_world s') = logged (sys_world s)
             @ [Stderr (''Error: '' @ airtouch_name (handles s ! i) @ '' (''
                        @ host (handles s ! i) @ '')'' @ '' initialisation failed.'')]"
    unfolding s' by (simp add: msg_def airtouch_id_def)
  have c: "calls (sys_world s') = calls (sys_world s)"
    unfolding s' by (simp add: msg_def)
  have t: "tasks s' = (tasks s)[i := Returned]"
    unfolding s' by simp
  have hd: "handles s' = handles s"
    unfolding s' by simp
  have sib: "\<forall>j. j \<noteq> i \<longrightarrow> tasks s' ! j = tasks s ! j"
    unfolding t by simp
  have p: "(\<exists>j < length (tasks s). j \<noteq> i \<and> tasks s ! j \<noteq> Returned) \<longrightarrow> process s' = Running"
  proof
    assume "\<exists>j < length (tasks s). j \<noteq> i \<and> tasks s ! j \<noteq> Returned"
    then obtain j where j: "j < length (tasks s)" "j \<noteq> i" "tasks s ! j \<noteq> Returned"
      by blast
    then have "(tasks s)[i := Returned] ! j \<noteq> Returned"
      by simp
    with j(1) have "\<not> list_all (\<lambda>t. t = Returned) ((tasks s)[i := Returned])"
      by (auto simp: list_all_length)
    then show "process s' = Running"
      unfolding s' by simp
  qed
  have again: "step (InitDone i r) s' = s'"
  proof (cases "process s' = Running")
    case True
    moreover have "tasks s' ! i = Returned"
      unfolding t using assms(2) by simp
    moreover have "\<not> list_all (\<lambda>t. t = Returned) (tasks s')"
      using True unfolding s' by (simp split: if_splits)
    ultimately show ?thesis
      by (simp add: step_def resume_all.simps settle_group_def)
  next
    case False
    then show ?thesis by (simp add: step_exited)
  qed
  show ?thesis
    using l c t hd sib p again unfolding s'_def by (intro conjI)
qed


text \<open>
  Claim C5, as amended. Whenever the process has exited, its exit status is 0. It is 0
  after an interrupt by the operator, 0 when the licence key is missing (the
  \<^verbatim>\<open>ValueError\<close> is logged), 0 when discovery returns no controller (the last message says
  so), and 0 when a monitor raises. The cases differ in what is logged, not in the status.
\<close>

theorem exit_status_always_zero:
  "(\<forall>c. process (run e evs) = Exited c \<longrightarrow> c = 0)
   \<and> process (step Interrupt (run e evs)) = Exited 0
   \<and> (NEW_RELIC_KEY e = None \<or> NEW_RELIC_KEY e = Some [] \<longrightarrow>
        process (run e evs) = Exited 0
        \<and> logged (sys_world (run e evs)) = [LogException
             ''An unexpected error occurred and the program has to stop.'' ValueError])
   \<and> (NEW_RELIC_KEY e = Some k \<and> k \<noteq> [] \<and> exporter_error e = None
        \<and> discovered_airtouches e = [] \<longrightarrow>
        process (run e evs) = Exited 0
        \<and> last (logged (sys_world (run e evs)))
            = Stderr ''No AirTouch systems were discovered.'')
   \<and> (process (run e evs) = Running \<and> i < length (tasks (run e evs))
        \<and> tasks (run e evs) ! i = Initializing
        \<and> fst (monitor_airtouch_resume i (handles (run e evs) ! i) r (sys_world (run e evs)))
            = Raise err \<longrightarrow>
        process (step (InitDone i r) (run e evs)) = Exited 0)"
proof -
  have a: "\<forall>c. process (run e evs) = Exited c \<longrightarrow> c = 0"
    using run_process [of e evs] by auto
  have b: "process (step Interrupt (run e evs)) = Exited 0"
    using run_process [of e evs] by (auto simp: step_def)
  have c: "NEW_RELIC_KEY e = None \<or> NEW_RELIC_KEY e = Some [] \<longrightarrow>
        process (run e evs) = Exited 0
        \<and> logged (sys_world (run e evs)) = [LogException
             ''An unexpected error occurred and the program has to stop.'' ValueError]"
  proof
    assume "NEW_RELIC_KEY e = None \<or> NEW_RELIC_KEY e = Some []"
    from start_no_key [OF this] show "process (run e evs) = Exited 0
        \<and> logged (sys_world (run e evs)) = [LogException
             ''An unexpected error occurred and the program has to stop.'' ValueError]"
      by (simp add: run_def fold_step_exited)
  qed
  have d: "NEW_RELIC_KEY e = Some k \<and> k \<noteq> [] \<and> exporter_error e = None
        \<and> discovered_airtouches e = [] \<longrightarrow>
        process (run e evs) = Exited 0
        \<and> last (logged (sys_world (run e evs)))
            = Stderr ''No AirTouch systems were discovered.''"
  proof
    assume h: "NEW_RELIC_KEY e = Some k \<and> k \<noteq> [] \<and> exporter_error e = None
        \<and> discovered_airtouches e = []"
    then have ok: "NEW_RELIC_KEY e = Some k" "k \<noteq> []" "exporter_error e = None"
      and empty: "discovered_airtouches e = []"
      by simp_all
    from start_ok [OF ok] empty have p: "process (start e) = Exited 0"
      and l: "last (logged (sys_world (start e))) = Stderr ''No AirTouch systems were discovered.''"
      by simp_all
    from p have "run e evs = start e"
      by (simp add: run_def fold_step_exited)
    with p l show "process (run e evs) = Exited 0
        \<and> last (logged (sys_world (run e evs)))
            = Stderr ''No AirTouch systems were discovered.''"
      by simp
  qed
  have f: "process (run e evs) = Running \<and> i < length (tasks (run e evs))
        \<and> tasks (run e evs) ! i = Initializing
        \<and> fst (monitor_airtouch_resume i (handles (run e evs) ! i) r (sys_world (run e evs)))
            = Raise err \<longrightarrow>
        process (step (InitDone i r) (run e evs)) = Exited 0"
  proof
    assume h: "process (run e evs) = Running \<and> i < length (tasks (run e evs))
        \<and> tasks (run e evs) ! i = Initializing
        \<and> fst (monitor_airtouch_resume i (handles (run e evs) ! i) r (sys_world (run e evs)))
            = Raise err"
    then obtain w where
      "monitor_airtouch_resume i (handles (run e evs) ! i) r (sys_world (run e evs))
         = (Raise err, w)"
      by (metis prod.collapse)
    from step_init [OF _ _ _ this] h show "process (step (InitDone i r) (run e evs)) = Exited 0"
      by (simp add: unexpected_error_def)
  qed
  show ?thesis
    using a b c d f by (intro conjI)
qed

section \<open>The baseline of a monitor and its gauge\<close>

lemma handler_at_position:
  assumes "k < length (air_conditioners airtouch)"
    and "wf_aircon (air_conditioners airtouch ! k)"
  shows "\<exists>w'. on_ac_status_updated (gauge_set i) airtouch (int k) w = (None, w')
     \<and> calls w' = calls w @ expected_samples i airtouch (air_conditioners airtouch ! k)"
proof -
  have "getitem (air_conditioners airtouch) (int k) = Inr (air_conditioners airtouch ! k)"
    using assms(1) by (simp add: getitem_def)
  with report_aircon_wf [OF assms(2), of i airtouch "int k" w] show ?thesis
    by (simp add: on_ac_status_updated_def)
qed

lemma subscribe_all_wf:
  assumes wf: "list_all wf_aircon (air_conditioners airtouch)"
    and ids: "map ac_id (air_conditioners airtouch)
                = map int [0..<length (air_conditioners airtouch)]"
  shows "k \<le> length (air_conditioners airtouch) \<Longrightarrow>
     \<exists>w'. subscribe_all i airtouch k (drop k (air_conditioners airtouch)) w = (None, w')
       \<and> calls w' = calls w
           @ concat (map (\<lambda>j. Subscribe i j
                               # expected_samples i airtouch (air_conditioners airtouch ! j))
                      [k..<length (air_conditioners airtouch)])"
proof (induction "length (air_conditioners airtouch) - k" arbitrary: k w)
  case 0
  then show ?case by simp
next
  case (Suc d)
  let ?acs = "air_conditioners airtouch"
  from Suc.hyps(2) have k: "k < length ?acs" by simp
  have dr: "drop k ?acs = ?acs ! k # drop (Suc k) ?acs"
    using k by (simp add: Cons_nth_drop_Suc)
  have up: "[k..<length ?acs] = k # [Suc k..<length ?acs]"
    using k by (simp add: upt_conv_Cons)
  have "map ac_id ?acs ! k = map int [0..<length ?acs] ! k"
    using ids by simp
  then have id: "ac_id (?acs ! k) = int k"
    using k by simp
  have "wf_aircon (?acs ! k)"
    using wf k by (simp add: list_all_length)
  from handler_at_position [OF k this, of i "do_call (Subscribe i k) w"] obtain w1 where
    h: "on_ac_status_updated (gauge_set i) airtouch (int k) (do_call (Subscribe i k) w)
          = (None, w1)"
    and c1: "calls w1 = calls (do_call (Subscribe i k) w)
               @ expected_samples i airtouch (?acs ! k)"
    by blast
  have d: "d = length ?acs - Suc k"
    using Suc.hyps(2) by simp
  from Suc.hyps(1) [OF d, of w1] k obtain w2 where
    r: "subscribe_all i airtouch (Suc k) (drop (Suc k) ?acs) w1 = (None, w2)"
    and c2: "calls w2 = calls w1
           @ concat (map (\<lambda>j. Subscribe i j # expected_samples i airtouch (?acs ! j))
                      [Suc k..<length ?acs])"
    by auto
  have "subscribe_all i airtouch k (drop k ?acs) w = (None, w2)"
    unfolding dr using h r id by simp
  moreover have "calls w2 = calls w
           @ concat (map (\<lambda>j. Subscribe i j # expected_samples i airtouch (?acs ! j))
                      [k..<length ?acs])"
    unfolding up using c1 c2 by (simp add: do_call_def)
  ultimately show ?case by blast
qed

lemma monitor_resume_wf:
  assumes "list_all wf_aircon (air_conditioners airtouch)"
    and "map ac_id (air_conditioners airtouch) = map int [0..<length (air_conditioners airtouch)]"
  shows "\<exists>w'. monitor_airtouch_resume i airtouch (InitReturned True) w = (Park, w')
     \<and> calls w' = calls w
         @ CreateGauge i ''airtouch.zone.temperature'' ''C''
         # concat (map (\<lambda>j. Subscribe i j
                              # expected_samples i airtouch (air_conditioners airtouch ! j))
                    [0..<length (air_conditioners airtouch)])"
proof -
  define w0 where "w0 = do_call (CreateGauge i ''airtouch.zone.temperature'' ''C'')
       (msg (''Continuously monitoring '' @ [CHR 0x27] @ airtouch_id airtouch
                          @ [CHR 0x27] @ ''...'') w)"
  from subscribe_all_wf [OF assms, of 0 i w0] obtain w' where
    s: "subscribe_all i airtouch 0 (air_conditioners airtouch) w0 = (None, w')"
    and c: "calls w' = calls w0
           @ concat (map (\<lambda>j. Subscribe i j
                               # expected_samples i airtouch (air_conditioners airtouch ! j))
                      [0..<length (air_conditioners airtouch)])"
    by auto
  have c0: "calls w0 = calls w @ [CreateGauge i ''airtouch.zone.temperature'' ''C'']"
    by (simp add: w0_def do_call_def msg_def)
  have "monitor_airtouch_resume i airtouch (InitReturned True) w = (Park, w')"
    unfolding monitor_resume_success w0_def [symmetric] s by simp
  with c c0 show ?thesis by simp
qed

lemma step_init_success:
  assumes "process s = Running" and "i < length (tasks s)" and "tasks s ! i = Initializing"
    and "list_all wf_aircon (air_conditioners (handles s ! i))"
    and "map ac_id (air_conditioners (handles s ! i))
           = map int [0..<length (air_conditioners (handles s ! i))]"
  shows "tasks (step (InitDone i (InitReturned True)) s) = (tasks s)[i := Active]
     \<and> process (step (InitDone i (InitReturned True)) s) = Running
     \<and> handles (step (InitDone i (InitReturned True)) s) = handles s
     \<and> calls (sys_world (step (InitDone i (InitReturned True)) s))
         = calls (sys_world s)
           @ CreateGauge i ''airtouch.zone.temperature'' ''C''
           # concat (map (\<lambda>j. Subscribe i j
                      # expected_samples i (handles s ! i) (air_conditioners (handles s ! i) ! j))
                      [0..<length (air_conditioners (handles s ! i))])"
proof -
  from monitor_resume_wf [OF assms(4,5), of i "sys_world s"] obtain w' where
    m: "monitor_airtouch_resume i (handles s ! i) (InitReturned True) (sys_world s) = (Park, w')"
    and c: "calls w' = calls (sys_world s)
         @ CreateGauge i ''airtouch.zone.temperature'' ''C''
         # concat (map (\<lambda>j. Subscribe i j
                    # expected_samples i (handles s ! i) (air_conditioners (handles s ! i) ! j))
                    [0..<length (air_conditioners (handles s ! i))])"
    by blast
  have "step (InitDone i (InitReturned True)) s
      = s\<lparr>sys_world := w', tasks := (tasks s)[i := Active]\<rparr>"
    unfolding step_init [OF assms(1,2,3) m] by simp
  with c assms(1) show ?thesis by simp
qed

text \<open>
  Claim C8, as amended. When the \<^verbatim>\<open>init\<close> of controller \<open>i\<close> returns true, and the air
  conditioners of the controller are well formed for the handler and carry their positions
  as identifiers, the monitor creates its gauge and then, for each air conditioner in
  order, subscribes the handler to it and calls the handler for it, which records the
  samples of its zones. The task is then \<open>Active\<close>, suspended for ever, and the process
  runs on.
\<close>

theorem init_success_subscribes_and_reports:
  assumes "process s = Running" and "i < length (tasks s)" and "tasks s ! i = Initializing"
    and "handles s ! i = airtouch"
    and "list_all wf_aircon (air_conditioners airtouch)"
    and "map ac_id (air_conditioners airtouch) = map int [0..<length (air_conditioners airtouch)]"
  shows "tasks (step (InitDone i (InitReturned True)) s) = (tasks s)[i := Active]
     \<and> process (step (InitDone i (InitReturned True)) s) = Running
     \<and> calls (sys_world (step (InitDone i (InitReturned True)) s))
         = calls (sys_world s)
           @ CreateGauge i ''airtouch.zone.temperature'' ''C''
           # concat (map (\<lambda>j. Subscribe i j
                                # expected_samples i airtouch (air_conditioners airtouch ! j))
                      [0..<length (air_conditioners airtouch)])"
  using step_init_success [of s i] assms by simp


section \<open>The properties on the example controllers\<close>

lemma ex_start:
  "process (start ex_env) = Running
   \<and> tasks (start ex_env) = [Initializing, Initializing]
   \<and> handles (start ex_env) = [ex_airtouch, ex_airtouch2]
   \<and> calls (sys_world (start ex_env))
       = [OTLPMetricExporter ''https://otlp.nr-data.net:4317/v1/metrics'' ''licence'',
          PeriodicExportingMetricReader, MeterProvider,
          SetMeterProvider, GetMeter ''pyairtouch.monitor'', Discover None, Init 0, Init 1]"
  using start_ok [of ex_env "''licence''"]
  by (simp add: ex_env_def upt_rec numeral_2_eq_2)

lemma ex_wf:
  "list_all wf_aircon (air_conditioners ex_airtouch)
   \<and> map ac_id (air_conditioners ex_airtouch) = map int [0..<length (air_conditioners ex_airtouch)]
   \<and> list_all wf_aircon (air_conditioners ex_airtouch2)
   \<and> map ac_id (air_conditioners ex_airtouch2)
       = map int [0..<length (air_conditioners ex_airtouch2)]"
  by (simp add: ex_airtouch_def ex_airtouch2_def ex_aircon_def wf_aircon_def reportable_zone_def
      wf_aircon_state_def wf_zone_def ex_zone_a_def ex_zone_b_def ex_zone_c_def)





theorem init_failure_ends_only_its_task_witness:
  "process (start ex_env) = Running
   \<and> 0 < length (tasks (start ex_env))
   \<and> tasks (start ex_env) ! 0 = Initializing
   \<and> last (logged (sys_world (run ex_env [InitDone 0 (InitReturned False)])))
       = Stderr ''Error: Home (192.168.1.20) initialisation failed.''
   \<and> tasks (run ex_env [InitDone 0 (InitReturned False), InitDone 1 (InitReturned True)])
       = [Returned, Active]
   \<and> process (run ex_env [InitDone 0 (InitReturned False), InitDone 1 (InitReturned True)])
       = Running"
proof -
  define s1 where "s1 = step (InitDone 0 (InitReturned False)) (start ex_env)"
  have h: "process (start ex_env) = Running" "0 < length (tasks (start ex_env))"
    "tasks (start ex_env) ! 0 = Initializing"
    using ex_start by simp_all
  from init_failure_ends_only_its_task [OF h] ex_start
  have l: "last (logged (sys_world s1)) = Stderr ''Error: Home (192.168.1.20) initialisation failed.''"
    and t1: "tasks s1 = [Returned, Initializing]"
    and hd: "handles s1 = [ex_airtouch, ex_airtouch2]"
    and p: "(\<exists>j < length (tasks (start ex_env)). j \<noteq> 0 \<and> tasks (start ex_env) ! j \<noteq> Returned)
             \<longrightarrow> process s1 = Running"
    unfolding s1_def by (simp_all add: ex_airtouch_def)
  have "\<exists>j < length (tasks (start ex_env)). j \<noteq> 0 \<and> tasks (start ex_env) ! j \<noteq> Returned"
    using ex_start by (intro exI [of _ 1]) simp
  with p have p1: "process s1 = Running" by simp
  have h2: "process s1 = Running" "1 < length (tasks s1)" "tasks s1 ! 1 = Initializing"
    "list_all wf_aircon (air_conditioners (handles s1 ! 1))"
    "map ac_id (air_conditioners (handles s1 ! 1))
           = map int [0..<length (air_conditioners (handles s1 ! 1))]"
    using p1 t1 hd ex_wf by simp_all
  from step_init_success [OF h2] t1
  have "tasks (step (InitDone 1 (InitReturned True)) s1) = [Returned, Active]
      \<and> process (step (InitDone 1 (InitReturned True)) s1) = Running"
    by simp
  with h l show ?thesis
    by (simp add: run_def s1_def)
qed

text \<open>
  The claim of distinct non-zero exit statuses fails: a missing key, an empty discovery
  and a failed monitor all end the process with status 0.
\<close>

theorem exit_status_counterexample:
  "process (run (ex_env\<lparr>NEW_RELIC_KEY := None\<rparr>) []) = Exited 0
   \<and> process (run (ex_env\<lparr>discovered_airtouches := []\<rparr>) []) = Exited 0
   \<and> process (run ex_env [InitDone 0 (InitRaised (RuntimeError ''connection lost''))])
       = Exited 0"
proof -
  have a: "process (run (ex_env\<lparr>NEW_RELIC_KEY := None\<rparr>) []) = Exited 0"
    using start_no_key [of "ex_env\<lparr>NEW_RELIC_KEY := None\<rparr>"] by (simp add: run_def)
  have b: "process (run (ex_env\<lparr>discovered_airtouches := []\<rparr>) []) = Exited 0"
    using start_ok [of "ex_env\<lparr>discovered_airtouches := []\<rparr>" "''licence''"]
    by (simp add: run_def ex_env_def)
  have h: "process (start ex_env) = Running" "0 < length (tasks (start ex_env))"
    "tasks (start ex_env) ! 0 = Initializing"
    using ex_start by simp_all
  from step_init_raised [OF h, of "RuntimeError ''connection lost''"]
  have c: "process (run ex_env [InitDone 0 (InitRaised (RuntimeError ''connection lost''))])
       = Exited 0"
    by (simp add: run_def)
  from a b c show ?thesis by (intro conjI)
qed

theorem exit_status_always_zero_witness:
  "NEW_RELIC_KEY (ex_env\<lparr>NEW_RELIC_KEY := None\<rparr>) = None
   \<and> process (run (ex_env\<lparr>NEW_RELIC_KEY := None\<rparr>) [Interrupt]) = Exited 0
   \<and> logged (sys_world (run (ex_env\<lparr>NEW_RELIC_KEY := None\<rparr>) [Interrupt]))
       = [LogException ''An unexpected error occurred and the program has to stop.'' ValueError]
   \<and> process (step Interrupt (run (ex_env\<lparr>NEW_RELIC_KEY := None\<rparr>) [Interrupt])) = Exited 0"
  using exit_status_always_zero [of "ex_env\<lparr>NEW_RELIC_KEY := None\<rparr>" "[Interrupt]"]
  by simp

lemma ex_shifted_resume:
  "monitor_airtouch_resume 0 ex_airtouch_shifted (InitReturned True) w
     = (Raise IndexError,
        do_call (Subscribe 0 0)
          (do_call (CreateGauge 0 ''airtouch.zone.temperature'' ''C'')
             (msg (''Continuously monitoring '' @ [CHR 0x27] @ airtouch_id ex_airtouch_shifted
                          @ [CHR 0x27] @ ''...'') w)))"
  unfolding monitor_resume_success
  by (simp add: ex_airtouch_shifted_def ex_airtouch_def on_ac_status_updated_def getitem_def)

text \<open>
  The claim as stated, for every controller whose initialization succeeds, fails: the
  air conditioner of this controller is well formed and has the identifier 1 at position
  0. The monitor creates its gauge, subscribes once, and the first call of the handler
  raises \<^verbatim>\<open>IndexError\<close>: no sample is recorded, the task has failed instead of being
  suspended, and the process ends.
\<close>

theorem baseline_counterexample:
  "list_all wf_aircon (air_conditioners ex_airtouch_shifted)
   \<and> tasks (run ex_env_shifted [InitDone 0 (InitReturned True)]) = [Failed IndexError, Cancelled]
   \<and> process (run ex_env_shifted [InitDone 0 (InitReturned True)]) = Exited 0
   \<and> drop 8 (calls (sys_world (run ex_env_shifted [InitDone 0 (InitReturned True)])))
       = [CreateGauge 0 ''airtouch.zone.temperature'' ''C'', Subscribe 0 0]"
proof -
  have wf: "list_all wf_aircon (air_conditioners ex_airtouch_shifted)"
    by (simp add: ex_airtouch_shifted_def ex_airtouch_def ex_aircon_def wf_aircon_def
        reportable_zone_def wf_aircon_state_def wf_zone_def ex_zone_a_def ex_zone_b_def
        ex_zone_c_def)
  have st: "process (start ex_env_shifted) = Running"
    "tasks (start ex_env_shifted) = [Initializing, Initializing]"
    "handles (start ex_env_shifted) ! 0 = ex_airtouch_shifted"
    "length (calls (sys_world (start ex_env_shifted))) = 8"
    using start_ok [of ex_env_shifted "''licence''"]
    by (simp_all add: ex_env_shifted_def)
  have h: "0 < length (tasks (start ex_env_shifted))"
    "tasks (start ex_env_shifted) ! 0 = Initializing"
    using st(2) by simp_all
  have m: "monitor_airtouch_resume 0 (handles (start ex_env_shifted) ! 0) (InitReturned True)
      (sys_world (start ex_env_shifted))
     = (Raise IndexError,
        do_call (Subscribe 0 0)
          (do_call (CreateGauge 0 ''airtouch.zone.temperature'' ''C'')
             (msg (''Continuously monitoring '' @ [CHR 0x27] @ airtouch_id ex_airtouch_shifted
                          @ [CHR 0x27] @ ''...'') (sys_world (start ex_env_shifted)))))"
    unfolding st(3) by (rule ex_shifted_resume)
  have r: "run ex_env_shifted [InitDone 0 (InitReturned True)]
      = step (InitDone 0 (InitReturned True)) (start ex_env_shifted)"
    by (simp add: run_def)
  have "tasks (run ex_env_shifted [InitDone 0 (InitReturned True)]) = [Failed IndexError, Cancelled]
   \<and> process (run ex_env_shifted [InitDone 0 (InitReturned True)]) = Exited 0
   \<and> drop 8 (calls (sys_world (run ex_env_shifted [InitDone 0 (InitReturned True)])))
       = [CreateGauge 0 ''airtouch.zone.temperature'' ''C'', Subscribe 0 0]"
    unfolding r step_init [OF st(1) h m]
    using st
    by (simp add: unexpected_error_def logging_exception_def cancel_pending_def do_call_def
        msg_def)
  with wf show ?thesis by simp
qed

theorem init_success_subscribes_and_reports_witness:
  "process (start ex_env) = Running
   \<and> 0 < length (tasks (start ex_env))
   \<and> tasks (start ex_env) ! 0 = Initializing
   \<and> handles (start ex_env) ! 0 = ex_airtouch
   \<and> list_all wf_aircon (air_conditioners ex_airtouch)
   \<and> map ac_id (air_conditioners ex_airtouch) = map int [0..<length (air_conditioners ex_airtouch)]
   \<and> tasks (step (InitDone 0 (InitReturned True)) (start ex_env)) = [Active, Initializing]
   \<and> process (step (InitDone 0 (InitReturned True)) (start ex_env)) = Running
   \<and> drop 8 (calls (sys_world (step (InitDone 0 (InitReturned True)) (start ex_env))))
       = [CreateGauge 0 ''airtouch.zone.temperature'' ''C'', Subscribe 0 0,
          GaugeSet 0 21 (projr (build_attributes ex_airtouch ex_aircon ex_zone_a)),
          GaugeSet 0 19 (projr (build_attributes ex_airtouch ex_aircon ex_zone_c))]"
proof -
  have h: "process (start ex_env) = Running" "0 < length (tasks (start ex_env))"
    "tasks (start ex_env) ! 0 = Initializing" "handles (start ex_env) ! 0 = ex_airtouch"
    "list_all wf_aircon (air_conditioners ex_airtouch)"
    "map ac_id (air_conditioners ex_airtouch) = map int [0..<length (air_conditioners ex_airtouch)]"
    using ex_start ex_wf by simp_all
  have z: "zones ex_aircon = [ex_zone_a, ex_zone_b, ex_zone_c]"
    "zone_current_temperature ex_zone_a = Some 21" "zone_current_temperature ex_zone_b = None"
    "zone_current_temperature ex_zone_c = Some 19"
    by (simp_all add: ex_aircon_def ex_zone_a_def ex_zone_b_def ex_zone_c_def)
  from init_success_subscribes_and_reports [OF h] ex_start
  have "tasks (step (InitDone 0 (InitReturned True)) (start ex_env)) = [Active, Initializing]
   \<and> process (step (InitDone 0 (InitReturned True)) (start ex_env)) = Running
   \<and> drop 8 (calls (sys_world (step (InitDone 0 (InitReturned True)) (start ex_env))))
       = [CreateGauge 0 ''airtouch.zone.temperature'' ''C'', Subscribe 0 0,
          GaugeSet 0 21 (projr (build_attributes ex_airtouch ex_aircon ex_zone_a)),
          GaugeSet 0 19 (projr (build_attributes ex_airtouch ex_aircon ex_zone_c))]"
    by (simp add: ex_airtouch_def expected_samples_def z)
  with h show ?thesis by simp
qed



end
